theory Spec2Isabelle
  imports Main "HOL-Library.Word"
begin

section \<open>The plugin framework, as the provider uses it\<close>

text \<open>
  An attribute of the Terraform plugin framework (\<open>types.String\<close>, \<open>types.Int64\<close>,
  \<open>types.Bool\<close>, \<open>types.Set\<close>) is null, unknown or a known Go value.  The accessors
  \<open>ValueString\<close>, \<open>ValueInt64\<close>, \<open>ValueBool\<close> and \<open>Elements\<close> return the zero value of
  the Go type when the attribute is null or unknown.

  Go's \<open>int64\<close> and \<open>uint64\<close> are both 64-bit words; the conversions \<open>int64(x)\<close> and
  \<open>uint64(x)\<close> of the source keep the bits, so both types are \<open>64 word\<close> here and the
  conversions do not show.  A Go slice that may be \<open>nil\<close> is a \<open>list option\<close>.
  The elements of a set attribute are taken to be known strings.
\<close>

datatype 'a attr = Null | Unknown | Known 'a

fun IsNull :: "'a attr \<Rightarrow> bool" where
  "IsNull Null = True"
| "IsNull Unknown = False"
| "IsNull (Known x) = False"

fun ValueString :: "string attr \<Rightarrow> string" where
  "ValueString (Known s) = s"
| "ValueString Null = []"
| "ValueString Unknown = []"

fun ValueInt64 :: "64 word attr \<Rightarrow> 64 word" where
  "ValueInt64 (Known n) = n"
| "ValueInt64 Null = 0"
| "ValueInt64 Unknown = 0"

fun ValueBool :: "bool attr \<Rightarrow> bool" where
  "ValueBool (Known b) = b"
| "ValueBool Null = False"
| "ValueBool Unknown = False"

fun Elements :: "string list attr \<Rightarrow> string list" where
  "Elements (Known xs) = xs"
| "Elements Null = []"
| "Elements Unknown = []"

text \<open>
  Diagnostics.  \<open>Diagnostics.Append\<close> of the framework skips a diagnostic that the
  collection already holds; \<open>AddError\<close> appends one error diagnostic through it.
\<close>

datatype diagnostic = ErrorDiagnostic string string | WarningDiagnostic string string

fun is_error :: "diagnostic \<Rightarrow> bool" where
  "is_error (ErrorDiagnostic summary detail) = True"
| "is_error (WarningDiagnostic summary detail) = False"

definition HasError :: "diagnostic list \<Rightarrow> bool" where
  "HasError ds = list_ex is_error ds"

fun Append :: "diagnostic list \<Rightarrow> diagnostic list \<Rightarrow> diagnostic list" where
  "Append ds [] = ds"
| "Append ds (d # more) = Append (if d \<in> set ds then ds else ds @ [d]) more"

definition AddError :: "string \<Rightarrow> string \<Rightarrow> diagnostic list \<Rightarrow> diagnostic list" where
  "AddError summary detail ds = Append ds [ErrorDiagnostic summary detail]"

text \<open>
  A request hands the provider a plan, a prior state or a configuration; \<open>Get\<close> decodes
  it into the resource's model struct and returns the diagnostics of the decoding.
  The decoded struct and those diagnostics are the two fields of \<open>tfsdk\<close>.
  A response holds the diagnostics and the state written so far; \<open>None\<close> is the state
  after \<open>RemoveResource\<close> (and the empty state a data source starts from).
  \<open>State.Set\<close> of a model struct of the resource's own schema stores it and reports
  nothing.
\<close>

record 'm tfsdk =
  decoded :: 'm
  decode_diags :: "diagnostic list"

definition Get :: "'m tfsdk \<Rightarrow> 'm \<times> diagnostic list" where
  "Get src = (decoded src, decode_diags src)"

record 'm response =
  Diagnostics :: "diagnostic list"
  State :: "'m option"

definition resp_Append :: "diagnostic list \<Rightarrow> 'm response \<Rightarrow> 'm response" where
  "resp_Append ds resp = resp\<lparr>Diagnostics := Append (Diagnostics resp) ds\<rparr>"

definition resp_AddError :: "string \<Rightarrow> string \<Rightarrow> 'm response \<Rightarrow> 'm response" where
  "resp_AddError summary detail resp =
     resp\<lparr>Diagnostics := AddError summary detail (Diagnostics resp)\<rparr>"

definition State_Set :: "'m \<Rightarrow> 'm response \<Rightarrow> 'm response" where
  "State_Set data resp = resp_Append [] (resp\<lparr>State := Some data\<rparr>)"

definition RemoveResource :: "'m response \<Rightarrow> 'm response" where
  "RemoveResource resp = resp\<lparr>State := None\<rparr>"

text \<open>
  \<open>types.SetValueFrom(ctx, types.StringType, xs)\<close> on a \<open>[]string\<close>: the framework's
  reflection turns a \<open>nil\<close> slice into the null set.  Any other slice is validated as
  a set: every element that repeats an earlier one is reported as the error
  "Duplicate Set Element" (at the empty path; the detail names the element), and a
  slice with such an error gives the unknown set together with the errors.  A slice
  without a repeated element gives the set of its elements and no diagnostic.
\<close>

fun duplicate_errors :: "string list \<Rightarrow> diagnostic list" where
  "duplicate_errors [] = []"
| "duplicate_errors (x # xs) =
     map (\<lambda>y. ErrorDiagnostic ''Duplicate Set Element''
                 (''This attribute contains duplicate values of: '' @ y))
       (filter (\<lambda>y. y = x) xs)
     @ duplicate_errors xs"

definition SetValueFrom :: "string list option \<Rightarrow> string list attr \<times> diagnostic list" where
  "SetValueFrom xs =
     (case xs of
        None \<Rightarrow> (Null, [])
      | Some ys \<Rightarrow>
          let diags = Append [] (duplicate_errors ys)
          in if HasError diags then (Unknown, diags) else (Known ys, []))"

text \<open>
  \<open>req.Plan.GetAttribute(ctx, path.Root(...), &target)\<close> into a \<open>[]string\<close> that the
  caller has set to \<open>[]string{}\<close>: a known set overwrites the target; otherwise the
  target keeps no element.  Both callers drop the diagnostics.
\<close>

definition GetAttribute_strings :: "string list attr \<Rightarrow> string list" where
  "GetAttribute_strings a = (case a of Known xs \<Rightarrow> xs | Null \<Rightarrow> [] | Unknown \<Rightarrow> [])"

text \<open>A Go panic (a nil dereference, an index out of range) ends the call.\<close>

datatype 'a outcome = Panic | Done 'a

section \<open>The messages of the remote service\<close>

text \<open>
  A \<open>timestamppb.Timestamp\<close> is the number of nanoseconds since the Unix epoch; the
  pointer may be \<open>nil\<close>, and \<open>AsTime\<close> of \<open>nil\<close> is the epoch itself.
  \<open>time.Time\<close> and \<open>time.Duration\<close> are counted in nanoseconds as well.
  The string \<open>t.Format(time.RFC3339)\<close> is kept symbolic as \<open>RFC3339 t\<close>.
\<close>

type_synonym Timestamp = "int option"

fun AsTime :: "Timestamp \<Rightarrow> int" where
  "AsTime None = 0"
| "AsTime (Some t) = t"

definition After :: "int \<Rightarrow> int \<Rightarrow> bool" where
  "After t u = (t > u)"

datatype rfc3339 = RFC3339 int

definition Hour :: int where
  "Hour = 3600000000000"

record User =
  user_Id :: "64 word"
  user_Name :: string
  user_CreatedAt :: Timestamp
  user_DisplayName :: string
  user_Email :: string

record Node =
  node_Id :: "64 word"
  node_Name :: string
  node_User :: "User option"
  node_ForcedTags :: "string list option"
  node_ApprovedRoutes :: "string list option"

record PreAuthKey =
  pak_Id :: "64 word"
  pak_Key :: string
  pak_Reusable :: bool
  pak_Ephemeral :: bool
  pak_Expiration :: Timestamp
  pak_CreatedAt :: Timestamp
  pak_AclTags :: "string list option"

record ApiKey =
  ak_Prefix :: string
  ak_Expiration :: Timestamp
  ak_CreatedAt :: Timestamp

text \<open>The getters of the generated messages are nil-safe.\<close>

fun GetForcedTags :: "Node option \<Rightarrow> string list option" where
  "GetForcedTags None = None"
| "GetForcedTags (Some n) = node_ForcedTags n"

fun GetApprovedRoutes :: "Node option \<Rightarrow> string list option" where
  "GetApprovedRoutes None = None"
| "GetApprovedRoutes (Some n) = node_ApprovedRoutes n"

fun User_GetId :: "User option \<Rightarrow> 64 word" where
  "User_GetId None = 0"
| "User_GetId (Some u) = user_Id u"

record SetTagsRequest =
  st_NodeId :: "64 word"
  st_Tags :: "string list"

record SetApprovedRoutesRequest =
  sr_NodeId :: "64 word"
  sr_Routes :: "string list"

record CreatePreAuthKeyRequest =
  cp_User :: "64 word"
  cp_Reusable :: bool
  cp_Ephemeral :: bool
  cp_Expiration :: Timestamp
  cp_AclTags :: "string list"

text \<open>
  The client.  The remote service is not part of the provider: every call is a
  function of the request and of the service's state \<open>'r\<close>, returning the error of the
  call or its response, and the service's next state.  The world of one operation is
  the service's state and the calls issued so far, in order.
\<close>

datatype rpc =
  ListNodesCall
| GetNodeCall "64 word"
| SetTagsCall SetTagsRequest
| SetApprovedRoutesCall SetApprovedRoutesRequest
| ListUsersCall "64 word"
| ListPreAuthKeysCall "64 word"
| CreatePreAuthKeyCall CreatePreAuthKeyRequest
| ListApiKeysCall
| CreateApiKeyCall Timestamp

record 'r HeadscaleServiceClient =
  ListNodes :: "'r \<Rightarrow> (string + Node list option) \<times> 'r"
  GetNode :: "64 word \<Rightarrow> 'r \<Rightarrow> (string + Node option) \<times> 'r"
  SetTags :: "SetTagsRequest \<Rightarrow> 'r \<Rightarrow> (string + Node option) \<times> 'r"
  SetApprovedRoutes :: "SetApprovedRoutesRequest \<Rightarrow> 'r \<Rightarrow> (string + Node option) \<times> 'r"
  ListUsers :: "64 word \<Rightarrow> 'r \<Rightarrow> (string + User list option) \<times> 'r"
  ListPreAuthKeys :: "64 word \<Rightarrow> 'r \<Rightarrow> (string + PreAuthKey list) \<times> 'r"
  CreatePreAuthKey :: "CreatePreAuthKeyRequest \<Rightarrow> 'r \<Rightarrow> (string + PreAuthKey option) \<times> 'r"
  ListApiKeys :: "'r \<Rightarrow> (string + ApiKey list) \<times> 'r"
  CreateApiKey :: "Timestamp \<Rightarrow> 'r \<Rightarrow> (string + string) \<times> 'r"

record 'r world =
  remote :: 'r
  calls :: "rpc list"

definition invoke :: "rpc \<Rightarrow> ('r \<Rightarrow> 'a \<times> 'r) \<Rightarrow> 'r world \<Rightarrow> 'a \<times> 'r world" where
  "invoke c f w = (case f (remote w) of (res, r') \<Rightarrow> (res, \<lparr>remote = r', calls = calls w @ [c]\<rparr>))"

section \<open>The nodes data source\<close>

record NodeModel =
  nm_Id :: "64 word attr"
  nm_Name :: "string attr"
  nm_UserId :: "64 word attr"

record NodesDataSourceModel =
  Nodes :: "NodeModel list"

definition to_NodeModel :: "Node \<Rightarrow> NodeModel" where
  "to_NodeModel node =
     \<lparr>nm_Id = Known (node_Id node), nm_Name = Known (node_Name node),
      nm_UserId = Known (User_GetId (node_User node))\<rparr>"

definition NodesDataSource_Read ::
  "'r HeadscaleServiceClient \<Rightarrow> NodesDataSourceModel tfsdk \<Rightarrow> NodesDataSourceModel response \<Rightarrow>
   'r world \<Rightarrow> NodesDataSourceModel response \<times> 'r world" where
  "NodesDataSource_Read client config resp0 w0 =
     (case Get config of (data, ds) \<Rightarrow>
        let resp = resp_Append ds resp0 in
        if HasError (Diagnostics resp) then (resp, w0)
        else (case invoke ListNodesCall (ListNodes client) w0 of
          (Inl err, w) \<Rightarrow>
            (resp_AddError ''Client Error'' (''Unable to list nodes, got error: '' @ err) resp, w)
        | (Inr nodes, w) \<Rightarrow>
            (case nodes of
               None \<Rightarrow>
                 (resp_AddError ''Client Error'' ''Headscale return null instead of list of nodes'' resp, w)
             | Some ns \<Rightarrow> (State_Set (data\<lparr>Nodes := map to_NodeModel ns\<rparr>) resp, w))))"

section \<open>The node tags and node routes resources\<close>

record NodeTagsResourceModel =
  nt_Id :: "64 word attr"
  nt_NodeId :: "64 word attr"
  nt_Tags :: "string list attr"

record NodeRoutesResourceModel =
  nr_Id :: "64 word attr"
  nr_NodeId :: "64 word attr"
  nr_Routes :: "string list attr"

text \<open>An update request carries the prior state and the plan.\<close>

record 'm UpdateRequest =
  req_State :: "'m tfsdk"
  req_Plan :: 'm

definition NodeTagsResource_readComputedFields ::
  "Node option \<Rightarrow> NodeTagsResourceModel \<Rightarrow> NodeTagsResourceModel \<times> diagnostic list" where
  "NodeTagsResource_readComputedFields node data =
     (let forcedTags = GetForcedTags node;
          forcedTags = (if forcedTags = None then Some [] else forcedTags)
      in case SetValueFrom forcedTags of (tags, diags) \<Rightarrow> (data\<lparr>nt_Tags := tags\<rparr>, diags))"

definition NodeTagsResource_Read ::
  "'r HeadscaleServiceClient \<Rightarrow> NodeTagsResourceModel tfsdk \<Rightarrow> NodeTagsResourceModel response \<Rightarrow>
   'r world \<Rightarrow> NodeTagsResourceModel response \<times> 'r world" where
  "NodeTagsResource_Read client state resp0 w0 =
     (case Get state of (data, ds) \<Rightarrow>
        let resp = resp_Append ds resp0 in
        if HasError (Diagnostics resp) then (resp, w0)
        else (case invoke (GetNodeCall (ValueInt64 (nt_NodeId data)))
                    (GetNode client (ValueInt64 (nt_NodeId data))) w0 of
          (Inl err, w) \<Rightarrow>
            (resp_AddError ''Client Error'' (''Unable to list nodes tags, got error: '' @ err) resp, w)
        | (Inr node, w) \<Rightarrow>
            if node = None
            then (RemoveResource (resp_AddError ''node not found'' ''node not found'' resp), w)
            else (case NodeTagsResource_readComputedFields node data of
                    (data', diags) \<Rightarrow> (State_Set data' (resp_Append diags resp), w))))"

definition NodeTagsResource_Update ::
  "'r HeadscaleServiceClient \<Rightarrow> NodeTagsResourceModel UpdateRequest \<Rightarrow>
   NodeTagsResourceModel response \<Rightarrow> 'r world \<Rightarrow> NodeTagsResourceModel response \<times> 'r world" where
  "NodeTagsResource_Update client req resp0 w0 =
     (case Get (req_State req) of (data, ds) \<Rightarrow>
        let resp = resp_Append ds resp0 in
        if HasError (Diagnostics resp) then (resp, w0)
        else
          let tags = GetAttribute_strings (nt_Tags (req_Plan req));
              request = \<lparr>st_NodeId = ValueInt64 (nt_NodeId data), st_Tags = tags\<rparr>
          in (case invoke (SetTagsCall request) (SetTags client request) w0 of
            (Inl err, w) \<Rightarrow>
              (resp_AddError ''Client Error'' (''Unable to set node tags, got error: '' @ err) resp, w)
          | (Inr node, w) \<Rightarrow>
              (case NodeTagsResource_readComputedFields node data of
                 (data', diags) \<Rightarrow> (State_Set data' (resp_Append diags resp), w))))"

definition NodeRoutesResource_readComputedFields ::
  "Node option \<Rightarrow> NodeRoutesResourceModel \<Rightarrow> NodeRoutesResourceModel \<times> diagnostic list" where
  "NodeRoutesResource_readComputedFields node data =
     (let approvedRoutes = GetApprovedRoutes node;
          approvedRoutes = (if approvedRoutes = None then Some [] else approvedRoutes)
      in case SetValueFrom approvedRoutes of (routes, diags) \<Rightarrow> (data\<lparr>nr_Routes := routes\<rparr>, diags))"

definition NodeRoutesResource_Read ::
  "'r HeadscaleServiceClient \<Rightarrow> NodeRoutesResourceModel tfsdk \<Rightarrow> NodeRoutesResourceModel response \<Rightarrow>
   'r world \<Rightarrow> NodeRoutesResourceModel response \<times> 'r world" where
  "NodeRoutesResource_Read client state resp0 w0 =
     (case Get state of (data, ds) \<Rightarrow>
        let resp = resp_Append ds resp0 in
        if HasError (Diagnostics resp) then (resp, w0)
        else (case invoke (GetNodeCall (ValueInt64 (nr_NodeId data)))
                    (GetNode client (ValueInt64 (nr_NodeId data))) w0 of
          (Inl err, w) \<Rightarrow>
            (resp_AddError ''Client Error'' (''Unable to list nodes routes, got error: '' @ err) resp, w)
        | (Inr node, w) \<Rightarrow>
            if node = None
            then (RemoveResource (resp_AddError ''node not found'' ''node not found'' resp), w)
            else (case NodeRoutesResource_readComputedFields node data of
                    (data', diags) \<Rightarrow> (State_Set data' (resp_Append diags resp), w))))"

definition NodeRoutesResource_Update ::
  "'r HeadscaleServiceClient \<Rightarrow> NodeRoutesResourceModel UpdateRequest \<Rightarrow>
   NodeRoutesResourceModel response \<Rightarrow> 'r world \<Rightarrow> NodeRoutesResourceModel response \<times> 'r world" where
  "NodeRoutesResource_Update client req resp0 w0 =
     (case Get (req_State req) of (data, ds) \<Rightarrow>
        let resp = resp_Append ds resp0 in
        if HasError (Diagnostics resp) then (resp, w0)
        else
          let routes = GetAttribute_strings (nr_Routes (req_Plan req));
              request = \<lparr>sr_NodeId = ValueInt64 (nr_NodeId data), sr_Routes = routes\<rparr>
          in (case invoke (SetApprovedRoutesCall request) (SetApprovedRoutes client request) w0 of
            (Inl err, w) \<Rightarrow>
              (resp_AddError ''Client Error'' (''Unable to set node routes, got error: '' @ err) resp, w)
          | (Inr node, w) \<Rightarrow>
              (case NodeRoutesResource_readComputedFields node data of
                 (data', diags) \<Rightarrow> (State_Set data' (resp_Append diags resp), w))))"

section \<open>The pre auth key resource\<close>

record PreAuthKeyResourceModel =
  pk_Id :: "64 word attr"
  pk_UserId :: "64 word attr"
  pk_Reusable :: "bool attr"
  pk_Ephemeral :: "bool attr"
  pk_Ttl :: "string attr"
  pk_ACLTags :: "string list attr"
  pk_Expired :: "bool attr"
  pk_CreatedAt :: "rfc3339 attr"
  pk_Expiration :: "rfc3339 attr"
  pk_Key :: "string attr"

text \<open>
  \<open>readComputedFields\<close> reads the clock once (\<open>now\<close>).  It reads the field
  \<open>key.Expiration\<close> without the getter, so a \<open>nil\<close> key panics.
\<close>

definition PreAuthKeyResource_readComputedFields ::
  "int \<Rightarrow> PreAuthKey option \<Rightarrow> PreAuthKeyResourceModel \<Rightarrow> PreAuthKeyResourceModel outcome" where
  "PreAuthKeyResource_readComputedFields now key data =
     (case key of
        None \<Rightarrow> Panic
      | Some k \<Rightarrow>
          Done (data\<lparr>pk_CreatedAt := Known (RFC3339 (AsTime (pak_CreatedAt k))),
                     pk_Expiration := Known (RFC3339 (AsTime (pak_Expiration k))),
                     pk_Key := Known (pak_Key k),
                     pk_Id := Known (pak_Id k),
                     pk_Expired := Known (After now (AsTime (pak_Expiration k))),
                     pk_Reusable := Known (pak_Reusable k),
                     pk_Ephemeral := Known (pak_Ephemeral k)\<rparr>))"

text \<open>
  \<open>Create\<close>.  \<open>time.ParseDuration\<close> is the Go standard library's and is a parameter:
  it returns the error's text or the duration.  \<open>now_expiry\<close> is the clock read for
  the expiration, \<open>now_fields\<close> the later one of \<open>readComputedFields\<close>.
\<close>

definition PreAuthKeyResource_Create ::
  "'r HeadscaleServiceClient \<Rightarrow> (string \<Rightarrow> string + int) \<Rightarrow> int \<Rightarrow> int \<Rightarrow>
   PreAuthKeyResourceModel tfsdk \<Rightarrow> PreAuthKeyResourceModel response \<Rightarrow> 'r world \<Rightarrow>
   PreAuthKeyResourceModel response outcome \<times> 'r world" where
  "PreAuthKeyResource_Create client ParseDuration now_expiry now_fields plan resp0 w0 =
     (case Get plan of (data, ds) \<Rightarrow>
        let resp = resp_Append ds resp0 in
        if HasError (Diagnostics resp) then (Done resp, w0)
        else
          let aclTags = Elements (pk_ACLTags data);
              expiration =
                (if IsNull (pk_Ttl data) then Inr (Some (now_expiry + 1 * Hour))
                 else (case ParseDuration (ValueString (pk_Ttl data)) of
                         Inl err \<Rightarrow> Inl err
                       | Inr ttl \<Rightarrow> Inr (Some (now_expiry + ttl))))
          in (case expiration of
                Inl err \<Rightarrow>
                  (Done (resp_AddError ''Parse TTL Error''
                           (''Unable to parse ttl, got error: '' @ err) resp), w0)
              | Inr expiration \<Rightarrow>
                  let request = \<lparr>cp_User = ValueInt64 (pk_UserId data),
                                 cp_Reusable = ValueBool (pk_Reusable data),
                                 cp_Ephemeral = ValueBool (pk_Ephemeral data),
                                 cp_Expiration = expiration,
                                 cp_AclTags = aclTags\<rparr>
                  in (case invoke (CreatePreAuthKeyCall request) (CreatePreAuthKey client request) w0 of
                        (Inl err, w) \<Rightarrow>
                          (Done (resp_AddError ''Client Error''
                                   (''Unable to create pre auth key, got error: '' @ err) resp), w)
                      | (Inr key, w) \<Rightarrow>
                          (case PreAuthKeyResource_readComputedFields now_fields key data of
                             Panic \<Rightarrow> (Panic, w)
                           | Done data' \<Rightarrow> (Done (State_Set data' resp), w)))))"

text \<open>
  The scan of \<open>Read\<close> has no \<open>break\<close>: the last key of the list with the id wins.
\<close>

fun scan_PreAuthKeys :: "64 word \<Rightarrow> PreAuthKey list \<Rightarrow> PreAuthKey option \<Rightarrow> PreAuthKey option" where
  "scan_PreAuthKeys id' [] preAuthKey = preAuthKey"
| "scan_PreAuthKeys id' (found # rest) preAuthKey =
     (if pak_Id found \<noteq> id' then scan_PreAuthKeys id' rest preAuthKey
      else scan_PreAuthKeys id' rest (Some found))"

text \<open>
  \<open>Read\<close> reads the clock twice: \<open>now_fields\<close> in \<open>readComputedFields\<close> and
  \<open>now_check\<close> for the removal after the state has been set.
\<close>

definition PreAuthKeyResource_Read ::
  "'r HeadscaleServiceClient \<Rightarrow> int \<Rightarrow> int \<Rightarrow>
   PreAuthKeyResourceModel tfsdk \<Rightarrow> PreAuthKeyResourceModel response \<Rightarrow> 'r world \<Rightarrow>
   PreAuthKeyResourceModel response outcome \<times> 'r world" where
  "PreAuthKeyResource_Read client now_fields now_check state resp0 w0 =
     (case Get state of (data, ds) \<Rightarrow>
        let resp = resp_Append ds resp0 in
        if HasError (Diagnostics resp) then (Done resp, w0)
        else (case invoke (ListPreAuthKeysCall (ValueInt64 (pk_UserId data)))
                     (ListPreAuthKeys client (ValueInt64 (pk_UserId data))) w0 of
          (Inl err, w) \<Rightarrow>
            (Done (resp_AddError ''Client Error''
                     (''Unable to list pre auth keys, got error: '' @ err) resp), w)
        | (Inr preAuthKeys, w) \<Rightarrow>
            let id' = ValueInt64 (pk_Id data);
                preAuthKey = scan_PreAuthKeys id' preAuthKeys None
            in (case preAuthKey of
                  None \<Rightarrow>
                    (Done (RemoveResource
                       (resp_AddError ''Pre auth key not found'' ''Pre auth key not found'' resp)), w)
                | Some k \<Rightarrow>
                    (case PreAuthKeyResource_readComputedFields now_fields preAuthKey data of
                       Panic \<Rightarrow> (Panic, w)
                     | Done data1 \<Rightarrow>
                         let data2 = data1\<lparr>pk_Reusable := Known (pak_Reusable k),
                                           pk_Ephemeral := Known (pak_Ephemeral k)\<rparr>
                         in (case SetValueFrom (pak_AclTags k) of (aclTags, diags) \<Rightarrow>
                               let resp1 = resp_Append diags resp;
                                   data3 = data2\<lparr>pk_ACLTags := aclTags\<rparr>;
                                   resp2 = State_Set data3 resp1
                               in (Done (if After now_check (AsTime (pak_Expiration k))
                                         then RemoveResource resp2 else resp2), w))))))"

definition PreAuthKeyResource_Update ::
  "'r HeadscaleServiceClient \<Rightarrow> PreAuthKeyResourceModel UpdateRequest \<Rightarrow>
   PreAuthKeyResourceModel response \<Rightarrow> 'r world \<Rightarrow> PreAuthKeyResourceModel response \<times> 'r world" where
  "PreAuthKeyResource_Update client req resp w =
     (resp_AddError ''Error updating pre auth key'' ''Pre auth keys cannot be updated'' resp, w)"

section \<open>The user resource\<close>

record UserResourceModel =
  ur_Id :: "64 word attr"
  ur_Name :: "string attr"
  ur_Email :: "string attr"
  ur_DisplayName :: "string attr"
  ur_CreatedAt :: "rfc3339 attr"

definition UserResource_readComputedFields :: "User \<Rightarrow> UserResourceModel \<Rightarrow> UserResourceModel" where
  "UserResource_readComputedFields user data =
     (let data = data\<lparr>ur_CreatedAt := Known (RFC3339 (AsTime (user_CreatedAt user))),
                       ur_Id := Known (user_Id user),
                       ur_Name := Known (user_Name user)\<rparr>;
          data = (if user_Email user = [] then data\<lparr>ur_Email := Null\<rparr>
                  else data\<lparr>ur_Email := Known (user_Email user)\<rparr>)
      in if user_DisplayName user = [] then data\<lparr>ur_DisplayName := Null\<rparr>
         else data\<lparr>ur_DisplayName := Known (user_DisplayName user)\<rparr>)"

text \<open>
  \<open>len\<close> of a \<open>nil\<close> slice is 0; indexing a slice at or beyond its length panics
  (\<open>None\<close> here).
\<close>

fun len :: "'a list option \<Rightarrow> nat" where
  "len None = 0"
| "len (Some xs) = length xs"

fun go_index :: "'a list option \<Rightarrow> nat \<Rightarrow> 'a option" where
  "go_index None i = None"
| "go_index (Some xs) i = (if i < length xs then Some (xs ! i) else None)"

definition UserResource_Read ::
  "'r HeadscaleServiceClient \<Rightarrow> UserResourceModel tfsdk \<Rightarrow> UserResourceModel response \<Rightarrow>
   'r world \<Rightarrow> UserResourceModel response outcome \<times> 'r world" where
  "UserResource_Read client state resp0 w0 =
     (case Get state of (data, ds) \<Rightarrow>
        let resp = resp_Append ds resp0 in
        if HasError (Diagnostics resp) then (Done resp, w0)
        else (case invoke (ListUsersCall (ValueInt64 (ur_Id data)))
                     (ListUsers client (ValueInt64 (ur_Id data))) w0 of
          (Inl err, w) \<Rightarrow>
            (Done (resp_AddError ''Client Error''
                     (''Unable to list users, got error: '' @ err) resp), w)
        | (Inr users, w) \<Rightarrow>
            if users = None \<or> len users \<noteq> 1
            then (Done (RemoveResource (resp_AddError ''user not found'' ''user not found'' resp)), w)
            else (case go_index users 0 of
                    None \<Rightarrow> (Panic, w)
                  | Some user \<Rightarrow>
                      (Done (State_Set (UserResource_readComputedFields user data) resp), w))))"

section \<open>The api key resource\<close>

record ApiKeyResourceModel =
  ar_Id :: "string attr"
  ar_Ttl :: "string attr"
  ar_Expired :: "bool attr"
  ar_CreatedAt :: "rfc3339 attr"
  ar_Expiration :: "rfc3339 attr"
  ar_Key :: "string attr"

text \<open>The scan of the api keys stops at the first key with the prefix.\<close>

fun scan_ApiKeys :: "string \<Rightarrow> ApiKey list \<Rightarrow> ApiKey option" where
  "scan_ApiKeys prefix [] = None"
| "scan_ApiKeys prefix (found # rest) =
     (if prefix = ak_Prefix found then Some found else scan_ApiKeys prefix rest)"

definition ApiKeyResource_readComputedFields ::
  "int \<Rightarrow> string \<Rightarrow> ApiKey list \<Rightarrow> ApiKeyResourceModel \<Rightarrow> bool \<times> ApiKeyResourceModel" where
  "ApiKeyResource_readComputedFields now prefix listResponse data =
     (case scan_ApiKeys prefix listResponse of
        None \<Rightarrow> (False, data)
      | Some apiKey \<Rightarrow>
          (True, data\<lparr>ar_Expiration := Known (RFC3339 (AsTime (ak_Expiration apiKey))),
                       ar_CreatedAt := Known (RFC3339 (AsTime (ak_CreatedAt apiKey))),
                       ar_Expired := Known (After now (AsTime (ak_Expiration apiKey)))\<rparr>))"

text \<open>
  \<open>strings.Split(s, sep)\<close> for a separator of one byte, as \<open>Create\<close> calls it
  (\<open>"."\<close>): the pieces of \<open>s\<close> between the separators, in order.
\<close>

fun Split :: "string \<Rightarrow> char \<Rightarrow> string list" where
  "Split [] sep = [[]]"
| "Split (c # cs) sep =
     (if c = sep then [] # Split cs sep
      else (case Split cs sep of [] \<Rightarrow> [[c]] | piece # pieces \<Rightarrow> (c # piece) # pieces))"

definition ApiKeyResource_Create ::
  "'r HeadscaleServiceClient \<Rightarrow> (string \<Rightarrow> string + int) \<Rightarrow> int \<Rightarrow> int \<Rightarrow>
   ApiKeyResourceModel tfsdk \<Rightarrow> ApiKeyResourceModel response \<Rightarrow> 'r world \<Rightarrow>
   ApiKeyResourceModel response outcome \<times> 'r world" where
  "ApiKeyResource_Create client ParseDuration now_expiry now_fields plan resp0 w0 =
     (case Get plan of (data, ds) \<Rightarrow>
        let resp = resp_Append ds resp0 in
        if HasError (Diagnostics resp) then (Done resp, w0)
        else (case ParseDuration (ValueString (ar_Ttl data)) of
          Inl err \<Rightarrow>
            (Done (resp_AddError ''Parse TTL Error''
                     (''Unable to parse ttl, got error: '' @ err) resp), w0)
        | Inr ttl \<Rightarrow>
            (case invoke (CreateApiKeyCall (Some (now_expiry + ttl)))
                    (CreateApiKey client (Some (now_expiry + ttl))) w0 of
               (Inl err, w1) \<Rightarrow>
                 (Done (resp_AddError ''Client Error''
                          (''Unable to create api key, got error: '' @ err) resp), w1)
             | (Inr apiKey, w1) \<Rightarrow>
                 (case go_index (Some (Split apiKey (CHR ''.''))) 0 of
                    None \<Rightarrow> (Panic, w1)
                  | Some keyPrefix \<Rightarrow>
                      let data1 = data\<lparr>ar_Key := Known apiKey, ar_Id := Known keyPrefix\<rparr>
                      in (case invoke ListApiKeysCall (ListApiKeys client) w1 of
                            (Inl err, w2) \<Rightarrow>
                              (Done (resp_AddError ''Client Error''
                                       (''Unable to list api keys after creation, got error: '' @ err)
                                       resp), w2)
                          | (Inr listResponse, w2) \<Rightarrow>
                              (case ApiKeyResource_readComputedFields now_fields
                                      (ValueString (ar_Id data1)) listResponse data1 of
                                 (isFound, data2) \<Rightarrow>
                                   if \<not> isFound
                                   then (Done (RemoveResource
                                           (resp_AddError ''Client Error''
                                              ''Unable to found api key after creation'' resp)), w2)
                                   else (Done (State_Set data2 resp), w2)))))))"

definition ApiKeyResource_Read ::
  "'r HeadscaleServiceClient \<Rightarrow> int \<Rightarrow> ApiKeyResourceModel tfsdk \<Rightarrow>
   ApiKeyResourceModel response \<Rightarrow> 'r world \<Rightarrow> ApiKeyResourceModel response \<times> 'r world" where
  "ApiKeyResource_Read client now state resp0 w0 =
     (case Get state of (data, ds) \<Rightarrow>
        let resp = resp_Append ds resp0 in
        if HasError (Diagnostics resp) then (resp, w0)
        else (case invoke ListApiKeysCall (ListApiKeys client) w0 of
          (Inl err, w) \<Rightarrow>
            (resp_AddError ''Client Error'' (''Unable to list api keys, got error: '' @ err) resp, w)
        | (Inr listResponse, w) \<Rightarrow>
            (case ApiKeyResource_readComputedFields now (ValueString (ar_Id data)) listResponse data of
               (isFound, data1) \<Rightarrow>
                 if \<not> isFound then (RemoveResource resp, w)
                 else
                   let resp1 = State_Set data1 resp
                   in (if ValueBool (ar_Expired data1) then RemoveResource resp1 else resp1, w))))"

definition ApiKeyResource_Update ::
  "'r HeadscaleServiceClient \<Rightarrow> ApiKeyResourceModel UpdateRequest \<Rightarrow>
   ApiKeyResourceModel response \<Rightarrow> 'r world \<Rightarrow> ApiKeyResourceModel response \<times> 'r world" where
  "ApiKeyResource_Update client req resp w =
     (resp_AddError ''Error updating api key'' ''api keys cannot be updated'' resp, w)"

section \<open>The provider's configuration\<close>

text \<open>
  \<open>Configure\<close> reads the environment and files through \<open>os\<close>; \<open>Getenv\<close> of an unset
  variable is the empty string, \<open>ReadFile\<close> returns the error's text or the bytes.
  The standard library's \<open>strconv.ParseBool\<close>, \<open>x509.CertPool.AppendCertsFromPEM\<close>,
  \<open>tls.X509KeyPair\<close> and \<open>grpc.NewClient\<close> are parameters (\<open>libs\<close>); the last two
  return the error's text, if any.  A certificate pool is the PEM text it was filled
  from, a key pair the two PEM texts it was built from.

  The provider's schema declares \<open>tls\<close> as a map of nested objects
  (\<open>schema.MapNestedAttribute\<close>), while the model struct holds it as a pointer to one
  struct.  \<open>req.Config.Get\<close> decodes a null \<open>tls\<close> into the \<open>nil\<close> pointer; the
  framework cannot convert a map that is not null into a struct and reports
  "Value Conversion Error" for it.  \<open>ProviderConfig\<close> is the configuration as the schema
  types it, \<open>Config_Get\<close> its decoding into the model struct.
\<close>

record TLSModel =
  tls_Insecure :: "bool attr"
  tls_CaPem :: "string attr"
  tls_ClientCertPem :: "string attr"
  tls_ClientKeyPem :: "string attr"

record HeadscaleProviderModel =
  pm_Endpoint :: "string attr"
  pm_ApiKey :: "string attr"
  pm_TLS :: "TLSModel option"

record ProviderConfig =
  raw_endpoint :: "string attr"
  raw_api_key :: "string attr"
  raw_tls :: "(string \<times> TLSModel) list attr"

definition Config_Get :: "ProviderConfig \<Rightarrow> HeadscaleProviderModel \<times> diagnostic list" where
  "Config_Get config =
     (let data = \<lparr>pm_Endpoint = raw_endpoint config, pm_ApiKey = raw_api_key config, pm_TLS = None\<rparr>
      in if IsNull (raw_tls config) then (data, [])
         else (data, [ErrorDiagnostic ''Value Conversion Error''
                        ''An unexpected error was encountered trying to convert value. This is always an error in the provider.'']))"

record tls_Config =
  InsecureSkipVerify :: bool
  RootCAs :: "string option"
  Certificates :: "(string \<times> string) list"

datatype DialOption = WithPerRPCCredentials string | WithTransportCredentials tls_Config

record os =
  Getenv :: "string \<Rightarrow> string"
  ReadFile :: "string \<Rightarrow> string + string"

record libs =
  ParseBool :: "string \<Rightarrow> string + bool"
  AppendCertsFromPEM :: "string \<Rightarrow> bool"
  X509KeyPair :: "string \<Rightarrow> string \<Rightarrow> string option"
  NewClient :: "string \<Rightarrow> DialOption list \<Rightarrow> string option"

record HeadscaleProviderConfiguration =
  cfg_target :: string
  cfg_connOpts :: "DialOption list"

record ConfigureResponse =
  cr_Diagnostics :: "diagnostic list"
  cr_DataSourceData :: "HeadscaleProviderConfiguration option"
  cr_ResourceData :: "HeadscaleProviderConfiguration option"

definition cr_AddError :: "string \<Rightarrow> string \<Rightarrow> ConfigureResponse \<Rightarrow> ConfigureResponse" where
  "cr_AddError summary detail resp =
     resp\<lparr>cr_Diagnostics := AddError summary detail (cr_Diagnostics resp)\<rparr>"

definition HeadscaleProvider_Configure ::
  "os \<Rightarrow> libs \<Rightarrow> ProviderConfig \<Rightarrow> ConfigureResponse \<Rightarrow> ConfigureResponse" where
  "HeadscaleProvider_Configure os libs config resp0 =
     (case Config_Get config of (data, ds) \<Rightarrow>
        let resp = resp0\<lparr>cr_Diagnostics := Append (cr_Diagnostics resp0) ds\<rparr> in
        if HasError (cr_Diagnostics resp) then resp
        else
          let target = Getenv os ''HEADSCALE_ENDPOINT'';
              target = (if \<not> IsNull (pm_Endpoint data) then ValueString (pm_Endpoint data) else target)
          in
          if target = []
          then cr_AddError ''endpoint is not set''
                 ''provider's attribute 'endpoint' is not configured'' resp
          else
            let connOpts = [];
                apiKey = Getenv os ''HEADSCALE_API_KEY'';
                apiKey = (if \<not> IsNull (pm_ApiKey data) then ValueString (pm_ApiKey data) else apiKey);
                connOpts = (if apiKey \<noteq> [] then connOpts @ [WithPerRPCCredentials apiKey] else connOpts);
                tls = pm_TLS data;
                (insecure, resp) =
                  (if tls \<noteq> None \<and> \<not> IsNull (tls_Insecure (the tls))
                   then (ValueBool (tls_Insecure (the tls)), resp)
                   else
                     let insecureEnv = Getenv os ''HEADSCALE_TLS_INSECURE'' in
                     if insecureEnv \<noteq> []
                     then (case ParseBool libs insecureEnv of
                             Inl err \<Rightarrow>
                               (False, cr_AddError ''Fail to parse env HEADSCALE_TLS_INSECURE''
                                  (''Fail to parse env HEADSCALE_TLS_INSECURE: '' @ err) resp)
                           | Inr result \<Rightarrow> (result, resp))
                     else (False, resp));
                tlsConfig = \<lparr>InsecureSkipVerify = insecure, RootCAs = None, Certificates = []\<rparr>;
                caPemPathEnv = Getenv os ''HEADSCALE_TLS_CA_PATH''
            in
            (case (if tls \<noteq> None \<and> \<not> IsNull (tls_CaPem (the tls))
                   then (if \<not> AppendCertsFromPEM libs (ValueString (tls_CaPem (the tls)))
                         then Inl (cr_AddError ''Fail to decode tls.ca_pem'' ''Fail to decode tls.ca_pem'' resp)
                         else Inr (tlsConfig\<lparr>RootCAs := Some (ValueString (tls_CaPem (the tls)))\<rparr>))
                   else if caPemPathEnv \<noteq> []
                   then (case ReadFile os caPemPathEnv of
                           Inl err \<Rightarrow>
                             Inl (cr_AddError ''Fail to read HEADSCALE_TLS_CA_PATH''
                                    (''Fail to read ca pem from HEADSCALE_TLS_CA_PATH ('' @ caPemPathEnv
                                       @ ''): '' @ err) resp)
                         | Inr cert \<Rightarrow>
                             if \<not> AppendCertsFromPEM libs cert
                             then Inl (cr_AddError ''Fail to decode tls.HEADSCALE_TLS_CA_PATH''
                                         ''Fail to decode HEADSCALE_TLS_CA_PATH'' resp)
                             else Inr (tlsConfig\<lparr>RootCAs := Some cert\<rparr>))
                   else Inr tlsConfig) of
               Inl failed \<Rightarrow> failed
             | Inr tlsConfig \<Rightarrow>
                 let tlsClientCertPathEnv = Getenv os ''HEADSCALE_TLS_CLIENT_CERT_PATH'' in
                 (case (if tls \<noteq> None \<and> \<not> IsNull (tls_ClientCertPem (the tls))
                        then Inr (ValueString (tls_ClientCertPem (the tls)))
                        else if tlsClientCertPathEnv \<noteq> []
                        then (case ReadFile os tlsClientCertPathEnv of
                                Inl err \<Rightarrow>
                                  Inl (cr_AddError ''Fail to read HEADSCALE_TLS_CLIENT_CERT_PATH''
                                         (''Fail to client cert pem from HEADSCALE_TLS_CLIENT_CERT_PATH (''
                                            @ tlsClientCertPathEnv @ ''): '' @ err) resp)
                              | Inr bytes \<Rightarrow> Inr bytes)
                        else Inr []) of
                    Inl failed \<Rightarrow> failed
                  | Inr tlsClientCertPem \<Rightarrow>
                      let tlsClientKeyPemPathEnv = Getenv os ''HEADSCALE_TLS_CLIENT_KEY_PATH'' in
                      (case (if tls \<noteq> None \<and> \<not> IsNull (tls_ClientCertPem (the tls))
                             then Inr (ValueString (tls_ClientKeyPem (the tls)))
                             else if tlsClientKeyPemPathEnv \<noteq> []
                             then (case ReadFile os tlsClientKeyPemPathEnv of
                                     Inl err \<Rightarrow>
                                       Inl (cr_AddError ''Fail to read HEADSCALE_TLS_CLIENT_KEY_PATH''
                                              (''Fail to client cert pem from HEADSCALE_TLS_CLIENT_KEY_PATH (''
                                                 @ tlsClientKeyPemPathEnv @ ''): '' @ err) resp)
                                   | Inr bytes \<Rightarrow> Inr bytes)
                             else Inr []) of
                         Inl failed \<Rightarrow> failed
                       | Inr tlsClientKeyPem \<Rightarrow>
                           (case (if length tlsClientCertPem > 0 \<or> length tlsClientKeyPem > 0
                                  then (case X509KeyPair libs tlsClientCertPem tlsClientKeyPem of
                                          Some err \<Rightarrow>
                                            Inl (cr_AddError ''Fail to read build tls client key pair''
                                                   (''Fail to read build tls client key pair: '' @ err) resp)
                                        | None \<Rightarrow>
                                            Inr (tlsConfig\<lparr>Certificates := Certificates tlsConfig
                                                   @ [(tlsClientCertPem, tlsClientKeyPem)]\<rparr>))
                                  else Inr tlsConfig) of
                              Inl failed \<Rightarrow> failed
                            | Inr tlsConfig \<Rightarrow>
                                let connOpts = connOpts @ [WithTransportCredentials tlsConfig] in
                                (case NewClient libs target connOpts of
                                   Some err \<Rightarrow>
                                     cr_AddError ''Create GRPC client error''
                                       (''cant create grpc client, got error: '' @ err) resp
                                 | None \<Rightarrow>
                                     let config = \<lparr>cfg_target = target, cfg_connOpts = connOpts\<rparr>
                                     in resp\<lparr>cr_DataSourceData := Some config,
                                              cr_ResourceData := Some config\<rparr>))))))"

section \<open>An in-memory service and sample inputs\<close>

text \<open>
  The theorems below hold for every client.  To run the operations on concrete inputs,
  \<open>memory_client\<close> is a client of a small service that keeps its nodes, users and keys
  in lists: the set calls replace the tags or the approved routes of the node named in
  the request and return that node, the list calls return what is stored, and the
  create calls store a key and return it.
\<close>

record memory =
  m_nodes :: "Node list"
  m_users :: "User list"
  m_preAuthKeys :: "PreAuthKey list"
  m_apiKeys :: "ApiKey list"

definition memory_client :: "memory HeadscaleServiceClient" where
  "memory_client =
     \<lparr>ListNodes = (\<lambda>r. (Inr (Some (m_nodes r)), r)),
      GetNode = (\<lambda>i r. (Inr (find (\<lambda>n. node_Id n = i) (m_nodes r)), r)),
      SetTags = (\<lambda>req r.
        let ns = map (\<lambda>n. if node_Id n = st_NodeId req
                            then n\<lparr>node_ForcedTags := Some (st_Tags req)\<rparr> else n) (m_nodes r)
        in (Inr (find (\<lambda>n. node_Id n = st_NodeId req) ns), r\<lparr>m_nodes := ns\<rparr>)),
      SetApprovedRoutes = (\<lambda>req r.
        let ns = map (\<lambda>n. if node_Id n = sr_NodeId req
                            then n\<lparr>node_ApprovedRoutes := Some (sr_Routes req)\<rparr> else n) (m_nodes r)
        in (Inr (find (\<lambda>n. node_Id n = sr_NodeId req) ns), r\<lparr>m_nodes := ns\<rparr>)),
      ListUsers = (\<lambda>i r. (Inr (Some (filter (\<lambda>u. user_Id u = i) (m_users r))), r)),
      ListPreAuthKeys = (\<lambda>u r. (Inr (m_preAuthKeys r), r)),
      CreatePreAuthKey = (\<lambda>req r.
        let k = \<lparr>pak_Id = 1, pak_Key = ''secret'', pak_Reusable = cp_Reusable req,
                 pak_Ephemeral = cp_Ephemeral req, pak_Expiration = cp_Expiration req,
                 pak_CreatedAt = Some 0, pak_AclTags = Some (cp_AclTags req)\<rparr>
        in (Inr (Some k), r\<lparr>m_preAuthKeys := m_preAuthKeys r @ [k]\<rparr>)),
      ListApiKeys = (\<lambda>r. (Inr (m_apiKeys r), r)),
      CreateApiKey = (\<lambda>expiration r.
        (Inr ''abc.secret'',
         r\<lparr>m_apiKeys := m_apiKeys r
              @ [\<lparr>ak_Prefix = ''abc'', ak_Expiration = expiration, ak_CreatedAt = Some 0\<rparr>]\<rparr>))\<rparr>"

definition empty_memory :: memory where
  "empty_memory = \<lparr>m_nodes = [], m_users = [], m_preAuthKeys = [], m_apiKeys = []\<rparr>"

text \<open>
  A world with no call issued yet; a request source that decodes without diagnostics;
  a response that starts with no diagnostics and the given state.
\<close>

definition fresh :: "'r \<Rightarrow> 'r world" where
  "fresh r = \<lparr>remote = r, calls = []\<rparr>"

definition decoded_ok :: "'m \<Rightarrow> 'm tfsdk" where
  "decoded_ok m = \<lparr>decoded = m, decode_diags = []\<rparr>"

definition prior :: "'m option \<Rightarrow> 'm response" where
  "prior s = \<lparr>Diagnostics = [], State = s\<rparr>"

text \<open>\<open>time.ParseDuration\<close> on the strings of the sample inputs.\<close>

definition sample_ParseDuration :: "string \<Rightarrow> string + int" where
  "sample_ParseDuration s =
     (if s = ''90m'' then Inr 5400000000000
      else if s = ''2160h'' then Inr 7776000000000000
      else Inl (''time: invalid duration '' @ s))"

definition sample_user :: User where
  "sample_user = \<lparr>user_Id = 5, user_Name = ''alice'', user_CreatedAt = Some 1000,
     user_DisplayName = [], user_Email = ''alice@example.com''\<rparr>"

definition sample_UserResourceModel :: "64 word \<Rightarrow> UserResourceModel" where
  "sample_UserResourceModel i = \<lparr>ur_Id = Known i, ur_Name = Known ''alice'', ur_Email = Null,
     ur_DisplayName = Null, ur_CreatedAt = Unknown\<rparr>"

definition sample_PreAuthKey :: PreAuthKey where
  "sample_PreAuthKey = \<lparr>pak_Id = 9, pak_Key = [], pak_Reusable = False, pak_Ephemeral = False,
     pak_Expiration = Some 100, pak_CreatedAt = Some 40, pak_AclTags = Some [''tag:prod'']\<rparr>"

definition sample_PreAuthKeyResourceModel :: "string attr \<Rightarrow> PreAuthKeyResourceModel" where
  "sample_PreAuthKeyResourceModel ttl =
     \<lparr>pk_Id = Known 9, pk_UserId = Known 3, pk_Reusable = Known False, pk_Ephemeral = Known False,
      pk_Ttl = ttl, pk_ACLTags = Known [''tag:prod''], pk_Expired = Unknown, pk_CreatedAt = Unknown,
      pk_Expiration = Unknown, pk_Key = Unknown\<rparr>"

definition sample_ApiKey :: ApiKey where
  "sample_ApiKey = \<lparr>ak_Prefix = ''abc'', ak_Expiration = Some 100, ak_CreatedAt = Some 40\<rparr>"

definition sample_ApiKeyResourceModel :: "string \<Rightarrow> ApiKeyResourceModel" where
  "sample_ApiKeyResourceModel prefix =
     \<lparr>ar_Id = Known prefix, ar_Ttl = Known ''2160h'', ar_Expired = Known False,
      ar_CreatedAt = Known (RFC3339 40), ar_Expiration = Known (RFC3339 100), ar_Key = Known []\<rparr>"

definition sample_Node :: Node where
  "sample_Node = \<lparr>node_Id = 7, node_Name = ''laptop'', node_User = Some sample_user,
     node_ForcedTags = None, node_ApprovedRoutes = None\<rparr>"

definition sample_NodeTagsResourceModel :: "string list \<Rightarrow> NodeTagsResourceModel" where
  "sample_NodeTagsResourceModel tags = \<lparr>nt_Id = Known 7, nt_NodeId = Known 7, nt_Tags = Known tags\<rparr>"

definition sample_NodeRoutesResourceModel :: "string list \<Rightarrow> NodeRoutesResourceModel" where
  "sample_NodeRoutesResourceModel routes =
     \<lparr>nr_Id = Known 7, nr_NodeId = Known 7, nr_Routes = Known routes\<rparr>"

text \<open>
  A machine whose only variable names the file of the client key, and standard
  library functions that accept what is not empty.
\<close>

definition sample_os :: os where
  "sample_os =
     \<lparr>Getenv = (\<lambda>name. if name = ''HEADSCALE_TLS_CLIENT_KEY_PATH'' then ''/pki/key.pem'' else []),
      ReadFile = (\<lambda>path. if path = ''/pki/key.pem'' then Inr ''KEY PEM''
                          else Inl ''open: no such file or directory'')\<rparr>"

definition sample_libs :: libs where
  "sample_libs =
     \<lparr>ParseBool = (\<lambda>s. if s = ''true'' then Inr True else if s = ''false'' then Inr False
                        else Inl ''invalid syntax''),
      AppendCertsFromPEM = (\<lambda>pem. pem \<noteq> []),
      X509KeyPair = (\<lambda>cert key. if cert = [] then Some ''tls: failed to find any PEM data in certificate input''
                                  else if key = [] then Some ''tls: failed to find any PEM data in key input''
                                  else None),
      NewClient = (\<lambda>target opts. None)\<rparr>"

definition sample_ProviderConfig :: ProviderConfig where
  "sample_ProviderConfig =
     \<lparr>raw_endpoint = Known ''headscale.my.domain:50443'', raw_api_key = Null, raw_tls = Null\<rparr>"

definition sample_TLSModel :: TLSModel where
  "sample_TLSModel = \<lparr>tls_Insecure = Null, tls_CaPem = Null,
     tls_ClientCertPem = Known ''CERT PEM'', tls_ClientKeyPem = Null\<rparr>"

definition no_response :: ConfigureResponse where
  "no_response = \<lparr>cr_Diagnostics = [], cr_DataSourceData = None, cr_ResourceData = None\<rparr>"

section \<open>Diagnostics and string splitting\<close>

lemma set_Append: "set (Append ds es) = set ds \<union> set es"
  by (induction es arbitrary: ds) auto

lemma HasError_iff: "HasError ds \<longleftrightarrow> (\<exists>d \<in> set ds. is_error d)"
  by (simp add: HasError_def list_ex_iff)

lemma HasError_Append: "HasError (Append ds es) \<longleftrightarrow> HasError ds \<or> HasError es"
  by (auto simp: HasError_iff set_Append)

lemma set_AddError: "set (AddError s d ds) = insert (ErrorDiagnostic s d) (set ds)"
  by (auto simp: AddError_def set_Append)

lemma HasError_AddError: "HasError (AddError s d ds)"
  by (auto simp: HasError_iff set_AddError)

lemma len_one: "len users = 1 \<Longrightarrow> \<exists>u. users = Some [u]"
  by (cases users) (auto simp: length_Suc_conv)

lemma Split_hd: "Split s c \<noteq> [] \<and> hd (Split s c) = takeWhile (\<lambda>x. x \<noteq> c) s"
  by (induction s) (auto split: list.splits)

lemma go_index_Split: "go_index (Some (Split s c)) 0 = Some (takeWhile (\<lambda>x. x \<noteq> c) s)"
  using Split_hd [of s c] by (cases "Split s c") auto

lemma takeWhile_proper: "c \<in> set s \<Longrightarrow> length (takeWhile (\<lambda>x. x \<noteq> c) s) < length s"
  by (induction s) auto

lemma HasError_Nil: "\<not> HasError []"
  by (simp add: HasError_def)

lemma HasError_append: "HasError (ds @ es) \<longleftrightarrow> HasError ds \<or> HasError es"
  by (simp add: HasError_def)

lemma HasError_map_errors: "HasError (map (\<lambda>y. ErrorDiagnostic s (d y)) xs) \<longleftrightarrow> xs \<noteq> []"
  by (induction xs) (simp_all add: HasError_def)

lemma HasError_duplicate_errors: "HasError (duplicate_errors ys) \<longleftrightarrow> \<not> distinct ys"
proof (induction ys)
  case Nil
  show ?case by (simp add: HasError_def)
next
  case (Cons a ys)
  have "filter (\<lambda>y. y = a) ys \<noteq> [] \<longleftrightarrow> a \<in> set ys"
    by (auto simp: filter_empty_conv)
  with Cons show ?case
    by (simp add: HasError_append HasError_map_errors)
qed

lemma SetValueFrom_Some:
  "SetValueFrom (Some ys)
     = (if distinct ys then (Known ys, []) else (Unknown, Append [] (duplicate_errors ys)))"
  by (simp add: SetValueFrom_def Let_def HasError_Append HasError_duplicate_errors HasError_Nil)

lemma SetValueFrom_None: "SetValueFrom None = (Null, [])"
  by (simp add: SetValueFrom_def)

lemma HasError_SetValueFrom:
  "HasError (snd (SetValueFrom xs)) \<longleftrightarrow> (case xs of None \<Rightarrow> False | Some ys \<Rightarrow> \<not> distinct ys)"
  by (cases xs)
    (simp_all add: SetValueFrom_None SetValueFrom_Some HasError_Append HasError_duplicate_errors
      HasError_Nil)

section \<open>The nodes data source: nil and empty\<close>

text \<open>
  Claim C9.  When the prior diagnostics hold no error and \<open>ListNodes\<close> succeeds,
  \<open>NodesDataSource.Read\<close> on a \<open>nil\<close> node list reports the error
  "Headscale return null instead of list of nodes" and leaves the state as it was,
  while on a non-nil list it reports no error and writes the sequence of the mapped
  nodes, which is the empty sequence for the empty list.
\<close>

theorem NodesDataSource_Read_nil_vs_empty:
  "(\<not> HasError (Append (Diagnostics resp0) (decode_diags config)) \<and>
    ListNodes client (remote w0) = (Inr None, r') \<longrightarrow>
      HasError (Diagnostics (fst (NodesDataSource_Read client config resp0 w0))) \<and>
      ErrorDiagnostic ''Client Error'' ''Headscale return null instead of list of nodes''
        \<in> set (Diagnostics (fst (NodesDataSource_Read client config resp0 w0))) \<and>
      State (fst (NodesDataSource_Read client config resp0 w0)) = State resp0) \<and>
   (\<not> HasError (Append (Diagnostics resp0) (decode_diags config)) \<and>
    ListNodes client (remote w0) = (Inr (Some ns), r') \<longrightarrow>
      \<not> HasError (Diagnostics (fst (NodesDataSource_Read client config resp0 w0))) \<and>
      State (fst (NodesDataSource_Read client config resp0 w0))
        = Some ((decoded config)\<lparr>Nodes := map to_NodeModel ns\<rparr>)) \<and>
   (\<not> HasError (Append (Diagnostics resp0) (decode_diags config)) \<and>
    ListNodes client (remote w0) = (Inr (Some []), r') \<longrightarrow>
      \<not> HasError (Diagnostics (fst (NodesDataSource_Read client config resp0 w0))) \<and>
      State (fst (NodesDataSource_Read client config resp0 w0))
        = Some ((decoded config)\<lparr>Nodes := []\<rparr>))"
  by (simp add: NodesDataSource_Read_def Get_def Let_def resp_Append_def resp_AddError_def
      State_Set_def invoke_def HasError_AddError set_AddError)

theorem NodesDataSource_Read_nil_vs_empty_witness:
  "HasError (Diagnostics (fst (NodesDataSource_Read
      (memory_client\<lparr>ListNodes := (\<lambda>r. (Inr None, r))\<rparr>)
      (decoded_ok \<lparr>Nodes = []\<rparr>) (prior None) (fresh empty_memory)))) \<and>
   State (fst (NodesDataSource_Read
      (memory_client\<lparr>ListNodes := (\<lambda>r. (Inr None, r))\<rparr>)
      (decoded_ok \<lparr>Nodes = []\<rparr>) (prior None) (fresh empty_memory))) = None \<and>
   \<not> HasError (Diagnostics (fst (NodesDataSource_Read memory_client
      (decoded_ok \<lparr>Nodes = []\<rparr>) (prior None) (fresh empty_memory)))) \<and>
   State (fst (NodesDataSource_Read memory_client
      (decoded_ok \<lparr>Nodes = []\<rparr>) (prior None) (fresh empty_memory))) = Some \<lparr>Nodes = []\<rparr> \<and>
   State (fst (NodesDataSource_Read memory_client
      (decoded_ok \<lparr>Nodes = []\<rparr>) (prior None) (fresh (empty_memory\<lparr>m_nodes := [sample_Node]\<rparr>))))
     = Some \<lparr>Nodes = [\<lparr>nm_Id = Known 7, nm_Name = Known ''laptop'', nm_UserId = Known 5\<rparr>]\<rparr>"
  using NodesDataSource_Read_nil_vs_empty [where ?resp0.0 = "prior None"
      and config = "decoded_ok \<lparr>Nodes = []\<rparr>"
      and client = "memory_client\<lparr>ListNodes := (\<lambda>r. (Inr None, r))\<rparr>"
      and ?w0.0 = "fresh empty_memory" and r' = empty_memory and ns = "[]"]
    NodesDataSource_Read_nil_vs_empty [where ?resp0.0 = "prior None"
      and config = "decoded_ok \<lparr>Nodes = []\<rparr>" and client = memory_client
      and ?w0.0 = "fresh empty_memory" and r' = empty_memory and ns = "[]"]
    NodesDataSource_Read_nil_vs_empty [where ?resp0.0 = "prior None"
      and config = "decoded_ok \<lparr>Nodes = []\<rparr>" and client = memory_client
      and ?w0.0 = "fresh (empty_memory\<lparr>m_nodes := [sample_Node]\<rparr>)"
      and r' = "empty_memory\<lparr>m_nodes := [sample_Node]\<rparr>" and ns = "[sample_Node]"]
  by (simp add: memory_client_def empty_memory_def fresh_def decoded_ok_def prior_def HasError_def
      to_NodeModel_def sample_Node_def sample_user_def)

section \<open>Node tags and node routes: the observed set is never null\<close>

text \<open>
  A forced tag list that repeats an element is not a set: the observed tags are the
  unknown value, with an error.
\<close>

theorem readComputedFields_repeated_element_unknown:
  "nt_Tags (fst (NodeTagsResource_readComputedFields
      (Some (sample_Node\<lparr>node_ForcedTags := Some [''tag:a'', ''tag:a'']\<rparr>))
      (sample_NodeTagsResourceModel []))) = Unknown \<and>
   snd (NodeTagsResource_readComputedFields
      (Some (sample_Node\<lparr>node_ForcedTags := Some [''tag:a'', ''tag:a'']\<rparr>))
      (sample_NodeTagsResourceModel []))
     = [ErrorDiagnostic ''Duplicate Set Element''
          ''This attribute contains duplicate values of: tag:a'']"
  by (simp add: NodeTagsResource_readComputedFields_def SetValueFrom_def Let_def HasError_def
      sample_Node_def sample_NodeTagsResourceModel_def)

text \<open>
  Claim C10, as the code has it.  For every node response (a \<open>nil\<close> node included) and
  every record, \<open>readComputedFields\<close> of the node tags resource never sets the tags to
  null: a \<open>nil\<close> list of forced tags gives the known empty set, a list without a
  repeated element the known set of its elements, both without a diagnostic; a list
  with a repeated element gives the unknown value and the errors of the duplicates.
  \<open>readComputedFields\<close> of the node routes resource does the same with the approved
  routes.
\<close>

theorem readComputedFields_never_null:
  "nt_Tags (fst (NodeTagsResource_readComputedFields node data)) \<noteq> Null \<and>
   nt_Tags (fst (NodeTagsResource_readComputedFields node data))
     = (case GetForcedTags node of
          None \<Rightarrow> Known []
        | Some tags \<Rightarrow> if distinct tags then Known tags else Unknown) \<and>
   snd (NodeTagsResource_readComputedFields node data)
     = (case GetForcedTags node of
          None \<Rightarrow> []
        | Some tags \<Rightarrow> if distinct tags then [] else Append [] (duplicate_errors tags)) \<and>
   HasError (snd (NodeTagsResource_readComputedFields node data))
     = (case GetForcedTags node of None \<Rightarrow> False | Some tags \<Rightarrow> \<not> distinct tags) \<and>
   nr_Routes (fst (NodeRoutesResource_readComputedFields node data')) \<noteq> Null \<and>
   nr_Routes (fst (NodeRoutesResource_readComputedFields node data'))
     = (case GetApprovedRoutes node of
          None \<Rightarrow> Known []
        | Some routes \<Rightarrow> if distinct routes then Known routes else Unknown) \<and>
   snd (NodeRoutesResource_readComputedFields node data')
     = (case GetApprovedRoutes node of
          None \<Rightarrow> []
        | Some routes \<Rightarrow> if distinct routes then [] else Append [] (duplicate_errors routes)) \<and>
   HasError (snd (NodeRoutesResource_readComputedFields node data'))
     = (case GetApprovedRoutes node of None \<Rightarrow> False | Some routes \<Rightarrow> \<not> distinct routes)"
  by (simp add: NodeTagsResource_readComputedFields_def NodeRoutesResource_readComputedFields_def
      SetValueFrom_Some Let_def HasError_Append HasError_duplicate_errors HasError_Nil
      split: option.splits)

theorem readComputedFields_never_null_witness:
  "fst (NodeTagsResource_readComputedFields None (sample_NodeTagsResourceModel [''tag:old'']))
     = sample_NodeTagsResourceModel [] \<and>
   fst (NodeTagsResource_readComputedFields (Some sample_Node)
          (sample_NodeTagsResourceModel [''tag:old''])) = sample_NodeTagsResourceModel [] \<and>
   NodeTagsResource_readComputedFields
      (Some (sample_Node\<lparr>node_ForcedTags := Some [''tag:a'', ''tag:b'']\<rparr>))
      (sample_NodeTagsResourceModel [])
     = (sample_NodeTagsResourceModel [''tag:a'', ''tag:b''], []) \<and>
   NodeRoutesResource_readComputedFields
      (Some (sample_Node\<lparr>node_ApprovedRoutes := Some [''10.0.0.0/8'']\<rparr>))
      (sample_NodeRoutesResourceModel [])
     = (sample_NodeRoutesResourceModel [''10.0.0.0/8''], [])"
  using readComputedFields_never_null [of None "sample_NodeTagsResourceModel [''tag:old'']"
      "sample_NodeRoutesResourceModel []"]
    readComputedFields_never_null [of "Some sample_Node" "sample_NodeTagsResourceModel [''tag:old'']"
      "sample_NodeRoutesResourceModel []"]
    readComputedFields_never_null
      [of "Some (sample_Node\<lparr>node_ForcedTags := Some [''tag:a'', ''tag:b'']\<rparr>)"
        "sample_NodeTagsResourceModel []" "sample_NodeRoutesResourceModel []"]
    readComputedFields_never_null
      [of "Some (sample_Node\<lparr>node_ApprovedRoutes := Some [''10.0.0.0/8'']\<rparr>)"
        "sample_NodeTagsResourceModel []" "sample_NodeRoutesResourceModel []"]
  by (simp add: NodeTagsResource_readComputedFields_def NodeRoutesResource_readComputedFields_def
      SetValueFrom_def Let_def HasError_def sample_Node_def sample_NodeTagsResourceModel_def
      sample_NodeRoutesResourceModel_def)

section \<open>Keys cannot be updated\<close>

text \<open>
  Claim C4.  For every client, request, response and world, \<open>Update\<close> of the pre auth
  key resource and of the api key resource reports its "cannot be updated" error,
  leaves the state of the response as it was, and returns the world unchanged: no call
  is issued and the remote service keeps its state.
\<close>

theorem key_Update_always_fails:
  "HasError (Diagnostics (fst (PreAuthKeyResource_Update client req resp w))) \<and>
   ErrorDiagnostic ''Error updating pre auth key'' ''Pre auth keys cannot be updated''
     \<in> set (Diagnostics (fst (PreAuthKeyResource_Update client req resp w))) \<and>
   State (fst (PreAuthKeyResource_Update client req resp w)) = State resp \<and>
   calls (snd (PreAuthKeyResource_Update client req resp w)) = calls w \<and>
   remote (snd (PreAuthKeyResource_Update client req resp w)) = remote w \<and>
   HasError (Diagnostics (fst (ApiKeyResource_Update client' req' resp' w'))) \<and>
   ErrorDiagnostic ''Error updating api key'' ''api keys cannot be updated''
     \<in> set (Diagnostics (fst (ApiKeyResource_Update client' req' resp' w'))) \<and>
   State (fst (ApiKeyResource_Update client' req' resp' w')) = State resp' \<and>
   calls (snd (ApiKeyResource_Update client' req' resp' w')) = calls w' \<and>
   remote (snd (ApiKeyResource_Update client' req' resp' w')) = remote w'"
  by (simp add: PreAuthKeyResource_Update_def ApiKeyResource_Update_def resp_AddError_def
      HasError_AddError set_AddError)

section \<open>The user resource: reading a user\<close>

text \<open>
  Claim C3.  \<open>UserResource.Read\<close> never panics.  When the prior diagnostics hold no
  error and \<open>ListUsers\<close> succeeds with a user list that is \<open>nil\<close> or whose length is
  not 1, the read removes the state and reports "user not found"; with exactly one
  user it stores the fields read from that user, the element at index 0.
\<close>

theorem UserResource_Read_not_found:
  "fst (UserResource_Read client state resp0 w0) \<noteq> Panic \<and>
   (\<not> HasError (Append (Diagnostics resp0) (decode_diags state)) \<and>
    ListUsers client (ValueInt64 (ur_Id (decoded state))) (remote w0) = (Inr users, r') \<and>
    (users = None \<or> len users \<noteq> 1) \<longrightarrow>
      (case fst (UserResource_Read client state resp0 w0) of
         Panic \<Rightarrow> False
       | Done resp \<Rightarrow> State resp = None \<and>
           ErrorDiagnostic ''user not found'' ''user not found'' \<in> set (Diagnostics resp))) \<and>
   (\<not> HasError (Append (Diagnostics resp0) (decode_diags state)) \<and>
    ListUsers client (ValueInt64 (ur_Id (decoded state))) (remote w0) = (Inr (Some [u]), r') \<longrightarrow>
      (case fst (UserResource_Read client state resp0 w0) of
         Panic \<Rightarrow> False
       | Done resp \<Rightarrow> State resp = Some (UserResource_readComputedFields u (decoded state))))"
  apply (intro conjI)
    apply (auto simp: UserResource_Read_def Get_def Let_def resp_Append_def resp_AddError_def
      State_Set_def RemoveResource_def invoke_def set_AddError
      split: prod.splits sum.splits option.splits if_splits dest: len_one)
  done

theorem UserResource_Read_not_found_witness:
  "(case fst (UserResource_Read memory_client (decoded_ok (sample_UserResourceModel 9))
              (prior (Some (sample_UserResourceModel 9)))
              (fresh (empty_memory\<lparr>m_users := [sample_user]\<rparr>))) of
      Panic \<Rightarrow> False
    | Done resp \<Rightarrow> State resp = None \<and> HasError (Diagnostics resp)) \<and>
   (case fst (UserResource_Read memory_client (decoded_ok (sample_UserResourceModel 5))
              (prior (Some (sample_UserResourceModel 5)))
              (fresh (empty_memory\<lparr>m_users := [sample_user, sample_user]\<rparr>))) of
      Panic \<Rightarrow> False
    | Done resp \<Rightarrow> State resp = None \<and> HasError (Diagnostics resp)) \<and>
   (case fst (UserResource_Read memory_client (decoded_ok (sample_UserResourceModel 5))
              (prior (Some (sample_UserResourceModel 5)))
              (fresh (empty_memory\<lparr>m_users := [sample_user]\<rparr>))) of
      Panic \<Rightarrow> False
    | Done resp \<Rightarrow> State resp = Some \<lparr>ur_Id = Known 5, ur_Name = Known ''alice'',
        ur_Email = Known ''alice@example.com'', ur_DisplayName = Null,
        ur_CreatedAt = Known (RFC3339 1000)\<rparr> \<and> \<not> HasError (Diagnostics resp))"
  using UserResource_Read_not_found [of memory_client "decoded_ok (sample_UserResourceModel 9)"
      "prior (Some (sample_UserResourceModel 9))"
      "fresh (empty_memory\<lparr>m_users := [sample_user]\<rparr>)" "Some []"
      "empty_memory\<lparr>m_users := [sample_user]\<rparr>" sample_user]
    UserResource_Read_not_found [of memory_client "decoded_ok (sample_UserResourceModel 5)"
      "prior (Some (sample_UserResourceModel 5))"
      "fresh (empty_memory\<lparr>m_users := [sample_user, sample_user]\<rparr>)"
      "Some [sample_user, sample_user]"
      "empty_memory\<lparr>m_users := [sample_user, sample_user]\<rparr>" sample_user]
    UserResource_Read_not_found [of memory_client "decoded_ok (sample_UserResourceModel 5)"
      "prior (Some (sample_UserResourceModel 5))"
      "fresh (empty_memory\<lparr>m_users := [sample_user]\<rparr>)" "Some [sample_user]"
      "empty_memory\<lparr>m_users := [sample_user]\<rparr>" sample_user]
  by (simp add: memory_client_def empty_memory_def fresh_def decoded_ok_def prior_def HasError_def
      sample_user_def sample_UserResourceModel_def UserResource_readComputedFields_def
      UserResource_Read_def Get_def resp_Append_def resp_AddError_def AddError_def State_Set_def
      RemoveResource_def invoke_def Let_def)

section \<open>Reading an expired key\<close>

text \<open>
  Claim C1.  When the prior diagnostics hold no error, the list call succeeds and the
  scan finds the key, a \<open>Read\<close> whose clock is past the key's expiration ends with the
  state removed, for every such clock value: \<open>PreAuthKeyResource.Read\<close> decides on the
  clock it reads after setting the state (\<open>now_check\<close>), \<open>ApiKeyResource.Read\<close> on the
  one clock it reads (\<open>now\<close>).
\<close>

theorem expired_key_Read_removes_state:
  "(\<not> HasError (Append (Diagnostics resp0) (decode_diags state)) \<and>
    ListPreAuthKeys client (ValueInt64 (pk_UserId (decoded state))) (remote w0) = (Inr keys, r') \<and>
    scan_PreAuthKeys (ValueInt64 (pk_Id (decoded state))) keys None = Some k \<and>
    now_check > AsTime (pak_Expiration k) \<longrightarrow>
      (case fst (PreAuthKeyResource_Read client now_fields now_check state resp0 w0) of
         Panic \<Rightarrow> False
       | Done resp \<Rightarrow> State resp = None)) \<and>
   (\<not> HasError (Append (Diagnostics resp_a) (decode_diags state_a)) \<and>
    ListApiKeys client_a (remote w_a) = (Inr apiKeys, r_a) \<and>
    scan_ApiKeys (ValueString (ar_Id (decoded state_a))) apiKeys = Some apiKey \<and>
    now > AsTime (ak_Expiration apiKey) \<longrightarrow>
      State (fst (ApiKeyResource_Read client_a now state_a resp_a w_a)) = None)"
  by (simp add: PreAuthKeyResource_Read_def PreAuthKeyResource_readComputedFields_def
      ApiKeyResource_Read_def ApiKeyResource_readComputedFields_def
      Get_def Let_def resp_Append_def State_Set_def RemoveResource_def invoke_def After_def
      split: prod.splits)

theorem expired_key_Read_removes_state_witness:
  "scan_PreAuthKeys 9 [sample_PreAuthKey] None = Some sample_PreAuthKey \<and>
   101 > AsTime (pak_Expiration sample_PreAuthKey) \<and>
   fst (PreAuthKeyResource_Read memory_client 99 101
          (decoded_ok (sample_PreAuthKeyResourceModel Null))
          (prior (Some (sample_PreAuthKeyResourceModel Null)))
          (fresh (empty_memory\<lparr>m_preAuthKeys := [sample_PreAuthKey]\<rparr>)))
     = Done \<lparr>Diagnostics = [], State = None\<rparr> \<and>
   scan_ApiKeys ''abc'' [sample_ApiKey] = Some sample_ApiKey \<and>
   101 > AsTime (ak_Expiration sample_ApiKey) \<and>
   State (fst (ApiKeyResource_Read memory_client 101
          (decoded_ok (sample_ApiKeyResourceModel ''abc''))
          (prior (Some (sample_ApiKeyResourceModel ''abc'')))
          (fresh (empty_memory\<lparr>m_apiKeys := [sample_ApiKey]\<rparr>)))) = None"
  using expired_key_Read_removes_state [where
      ?resp0.0 = "prior (Some (sample_PreAuthKeyResourceModel Null))"
      and state = "decoded_ok (sample_PreAuthKeyResourceModel Null)"
      and client = memory_client
      and ?w0.0 = "fresh (empty_memory\<lparr>m_preAuthKeys := [sample_PreAuthKey]\<rparr>)"
      and keys = "[sample_PreAuthKey]"
      and r' = "empty_memory\<lparr>m_preAuthKeys := [sample_PreAuthKey]\<rparr>"
      and k = sample_PreAuthKey and now_check = 101 and now_fields = 99
      and resp_a = "prior (Some (sample_ApiKeyResourceModel ''abc''))"
      and state_a = "decoded_ok (sample_ApiKeyResourceModel ''abc'')"
      and client_a = memory_client
      and w_a = "fresh (empty_memory\<lparr>m_apiKeys := [sample_ApiKey]\<rparr>)"
      and apiKeys = "[sample_ApiKey]"
      and r_a = "empty_memory\<lparr>m_apiKeys := [sample_ApiKey]\<rparr>"
      and apiKey = sample_ApiKey and now = 101]
  by (simp add: memory_client_def empty_memory_def fresh_def decoded_ok_def prior_def
      sample_PreAuthKey_def sample_PreAuthKeyResourceModel_def sample_ApiKey_def
      sample_ApiKeyResourceModel_def PreAuthKeyResource_Read_def
      PreAuthKeyResource_readComputedFields_def SetValueFrom_def HasError_def
      Get_def Let_def resp_Append_def State_Set_def RemoveResource_def invoke_def After_def)

text \<open>
  The comparison is strict (\<open>time.Time.After\<close>): a read at the very instant of the
  expiration keeps the key in the state.
\<close>

lemma Read_at_expiration_instant_keeps_state:
  "\<not> HasError (Append (Diagnostics resp0) (decode_diags state)) \<Longrightarrow>
   ListPreAuthKeys client (ValueInt64 (pk_UserId (decoded state))) (remote w0) = (Inr keys, r') \<Longrightarrow>
   scan_PreAuthKeys (ValueInt64 (pk_Id (decoded state))) keys None = Some k \<Longrightarrow>
   now_check = AsTime (pak_Expiration k) \<Longrightarrow>
   (case fst (PreAuthKeyResource_Read client now_fields now_check state resp0 w0) of
      Panic \<Rightarrow> False
    | Done resp \<Rightarrow> State resp \<noteq> None)"
  by (simp add: PreAuthKeyResource_Read_def PreAuthKeyResource_readComputedFields_def
      Get_def Let_def resp_Append_def State_Set_def RemoveResource_def invoke_def After_def
      split: prod.splits)

lemma ApiKey_Read_at_expiration_instant_keeps_state:
  "\<not> HasError (Append (Diagnostics resp0) (decode_diags state)) \<Longrightarrow>
   ListApiKeys client (remote w0) = (Inr apiKeys, r') \<Longrightarrow>
   scan_ApiKeys (ValueString (ar_Id (decoded state))) apiKeys = Some apiKey \<Longrightarrow>
   now = AsTime (ak_Expiration apiKey) \<Longrightarrow>
   State (fst (ApiKeyResource_Read client now state resp0 w0)) \<noteq> None"
  by (simp add: ApiKeyResource_Read_def ApiKeyResource_readComputedFields_def
      Get_def Let_def resp_Append_def State_Set_def RemoveResource_def invoke_def After_def
      split: prod.splits)

section \<open>Creating a pre auth key: the expiration\<close>

text \<open>
  Claim C2.  When the prior diagnostics hold no error, \<open>PreAuthKeyResource.Create\<close>
  \<^item> with a null \<open>ttl\<close> issues exactly one call, \<open>CreatePreAuthKey\<close>, whose expiration is
    the clock plus one hour (3600000000000 ns);
  \<^item> with a \<open>ttl\<close> that \<open>time.ParseDuration\<close> parses issues exactly that call with the
    clock plus the parsed duration;
  \<^item> with a \<open>ttl\<close> that \<open>time.ParseDuration\<close> rejects reports "Parse TTL Error" with
    the parser's message, issues no call, and leaves the state and the service as
    they were.
  The units a duration string may carry are those of \<open>time.ParseDuration\<close>, which is
  the standard library's and a parameter here.
\<close>

theorem PreAuthKey_Create_expiration:
  "(\<not> HasError (Append (Diagnostics resp0) (decode_diags plan)) \<and> IsNull (pk_Ttl (decoded plan)) \<longrightarrow>
      calls (snd (PreAuthKeyResource_Create client ParseDuration now_expiry now_fields plan resp0 w0))
        = calls w0 @ [CreatePreAuthKeyCall
            \<lparr>cp_User = ValueInt64 (pk_UserId (decoded plan)),
             cp_Reusable = ValueBool (pk_Reusable (decoded plan)),
             cp_Ephemeral = ValueBool (pk_Ephemeral (decoded plan)),
             cp_Expiration = Some (now_expiry + 3600000000000),
             cp_AclTags = Elements (pk_ACLTags (decoded plan))\<rparr>]) \<and>
   (\<not> HasError (Append (Diagnostics resp0) (decode_diags plan)) \<and> \<not> IsNull (pk_Ttl (decoded plan)) \<and>
    ParseDuration (ValueString (pk_Ttl (decoded plan))) = Inr ttl \<longrightarrow>
      calls (snd (PreAuthKeyResource_Create client ParseDuration now_expiry now_fields plan resp0 w0))
        = calls w0 @ [CreatePreAuthKeyCall
            \<lparr>cp_User = ValueInt64 (pk_UserId (decoded plan)),
             cp_Reusable = ValueBool (pk_Reusable (decoded plan)),
             cp_Ephemeral = ValueBool (pk_Ephemeral (decoded plan)),
             cp_Expiration = Some (now_expiry + ttl),
             cp_AclTags = Elements (pk_ACLTags (decoded plan))\<rparr>]) \<and>
   (\<not> HasError (Append (Diagnostics resp0) (decode_diags plan)) \<and> \<not> IsNull (pk_Ttl (decoded plan)) \<and>
    ParseDuration (ValueString (pk_Ttl (decoded plan))) = Inl err \<longrightarrow>
      snd (PreAuthKeyResource_Create client ParseDuration now_expiry now_fields plan resp0 w0) = w0 \<and>
      (case fst (PreAuthKeyResource_Create client ParseDuration now_expiry now_fields plan resp0 w0) of
         Panic \<Rightarrow> False
       | Done resp \<Rightarrow>
           ErrorDiagnostic ''Parse TTL Error'' (''Unable to parse ttl, got error: '' @ err)
             \<in> set (Diagnostics resp) \<and>
           HasError (Diagnostics resp) \<and> State resp = State resp0))"
  by (simp add: PreAuthKeyResource_Create_def Get_def Let_def resp_Append_def resp_AddError_def
      invoke_def Hour_def HasError_AddError set_AddError
      split: prod.splits sum.splits outcome.splits)

theorem PreAuthKey_Create_expiration_witness:
  "calls (snd (PreAuthKeyResource_Create memory_client sample_ParseDuration 1000 1001
      (decoded_ok (sample_PreAuthKeyResourceModel Null)) (prior None) (fresh empty_memory)))
     = [CreatePreAuthKeyCall \<lparr>cp_User = 3, cp_Reusable = False, cp_Ephemeral = False,
          cp_Expiration = Some 3600000001000, cp_AclTags = [''tag:prod'']\<rparr>] \<and>
   sample_ParseDuration ''90m'' = Inr 5400000000000 \<and>
   calls (snd (PreAuthKeyResource_Create memory_client sample_ParseDuration 1000 1001
      (decoded_ok (sample_PreAuthKeyResourceModel (Known ''90m''))) (prior None) (fresh empty_memory)))
     = [CreatePreAuthKeyCall \<lparr>cp_User = 3, cp_Reusable = False, cp_Ephemeral = False,
          cp_Expiration = Some 5400000001000, cp_AclTags = [''tag:prod'']\<rparr>] \<and>
   sample_ParseDuration ''soon'' = Inl ''time: invalid duration soon'' \<and>
   PreAuthKeyResource_Create memory_client sample_ParseDuration 1000 1001
      (decoded_ok (sample_PreAuthKeyResourceModel (Known ''soon''))) (prior None) (fresh empty_memory)
     = (Done \<lparr>Diagnostics = [ErrorDiagnostic ''Parse TTL Error''
                  ''Unable to parse ttl, got error: time: invalid duration soon''],
              State = None\<rparr>, fresh empty_memory)"
  using PreAuthKey_Create_expiration [where ?resp0.0 = "prior None"
      and plan = "decoded_ok (sample_PreAuthKeyResourceModel Null)"
      and client = memory_client and ParseDuration = sample_ParseDuration
      and now_expiry = 1000 and now_fields = 1001 and ?w0.0 = "fresh empty_memory"]
    PreAuthKey_Create_expiration [where ?resp0.0 = "prior None"
      and plan = "decoded_ok (sample_PreAuthKeyResourceModel (Known ''90m''))"
      and client = memory_client and ParseDuration = sample_ParseDuration
      and now_expiry = 1000 and now_fields = 1001 and ?w0.0 = "fresh empty_memory"
      and ttl = 5400000000000]
    PreAuthKey_Create_expiration [where ?resp0.0 = "prior None"
      and plan = "decoded_ok (sample_PreAuthKeyResourceModel (Known ''soon''))"
      and client = memory_client and ParseDuration = sample_ParseDuration
      and now_expiry = 1000 and now_fields = 1001 and ?w0.0 = "fresh empty_memory"
      and err = "''time: invalid duration soon''"]
  by (simp add: memory_client_def empty_memory_def fresh_def decoded_ok_def prior_def
      sample_PreAuthKeyResourceModel_def sample_ParseDuration_def HasError_def
      PreAuthKeyResource_Create_def Get_def Let_def resp_Append_def resp_AddError_def
      AddError_def invoke_def)

section \<open>Creating an api key: the id is the prefix of the secret\<close>

text \<open>
  A service that returns a secret without a \<open>.\<close> and lists the key under that same
  string: the creation succeeds, and the full secret is stored in \<open>id\<close> as well as in
  \<open>key\<close>.
\<close>

theorem ApiKey_Create_secret_without_dot:
  "fst (ApiKeyResource_Create
          (memory_client\<lparr>CreateApiKey := (\<lambda>expiration r.
             (Inr ''abcsecret'',
              r\<lparr>m_apiKeys := [\<lparr>ak_Prefix = ''abcsecret'', ak_Expiration = expiration,
                                 ak_CreatedAt = Some 0\<rparr>]\<rparr>))\<rparr>)
          sample_ParseDuration 1000 1001
          (decoded_ok (sample_ApiKeyResourceModel [])) (prior None) (fresh empty_memory))
     = Done \<lparr>Diagnostics = [],
             State = Some \<lparr>ar_Id = Known ''abcsecret'', ar_Ttl = Known ''2160h'',
               ar_Expired = Known False, ar_CreatedAt = Known (RFC3339 0),
               ar_Expiration = Known (RFC3339 7776000000001000),
               ar_Key = Known ''abcsecret''\<rparr>\<rparr>"
  by (simp add: memory_client_def empty_memory_def fresh_def decoded_ok_def prior_def
      sample_ApiKeyResourceModel_def sample_ParseDuration_def HasError_def
      ApiKeyResource_Create_def ApiKeyResource_readComputedFields_def
      Get_def Let_def resp_Append_def State_Set_def invoke_def After_def)

text \<open>
  Claim C6, as the code has it.  When the prior diagnostics hold no error, the \<open>ttl\<close>
  parses, \<open>CreateApiKey\<close> returns the secret, \<open>ListApiKeys\<close> succeeds and lists a key
  whose prefix is the part of the secret before its first \<open>.\<close> (the whole secret when
  it holds none), then \<open>ApiKeyResource.Create\<close> succeeds without an error and stores
  the plan's record with \<open>key\<close> set to the full secret, \<open>id\<close> set to the part of the
  secret before its first \<open>.\<close>, and \<open>expiration\<close>, \<open>created_at\<close> and \<open>expired\<close> set
  from the listed key; no other field changes.  When the secret holds a \<open>.\<close>, the id
  is strictly shorter than the secret, so the full secret is stored in \<open>key\<close> only.
\<close>

theorem ApiKey_Create_id_is_prefix:
  "\<not> HasError (Append (Diagnostics resp0) (decode_diags plan)) \<and>
   ParseDuration (ValueString (ar_Ttl (decoded plan))) = Inr ttl \<and>
   CreateApiKey client (Some (now_expiry + ttl)) (remote w0) = (Inr secret, r1) \<and>
   ListApiKeys client r1 = (Inr listResponse, r2) \<and>
   scan_ApiKeys (takeWhile (\<lambda>c. c \<noteq> CHR ''.'') secret) listResponse = Some apiKey \<longrightarrow>
     (case fst (ApiKeyResource_Create client ParseDuration now_expiry now_fields plan resp0 w0) of
        Panic \<Rightarrow> False
      | Done resp \<Rightarrow>
          \<not> HasError (Diagnostics resp) \<and>
          State resp = Some ((decoded plan)\<lparr>
            ar_Key := Known secret,
            ar_Id := Known (takeWhile (\<lambda>c. c \<noteq> CHR ''.'') secret),
            ar_Expiration := Known (RFC3339 (AsTime (ak_Expiration apiKey))),
            ar_CreatedAt := Known (RFC3339 (AsTime (ak_CreatedAt apiKey))),
            ar_Expired := Known (After now_fields (AsTime (ak_Expiration apiKey)))\<rparr>) \<and>
          (CHR ''.'' \<in> set secret \<longrightarrow>
             length (takeWhile (\<lambda>c. c \<noteq> CHR ''.'') secret) < length secret))"
  by (simp add: ApiKeyResource_Create_def ApiKeyResource_readComputedFields_def go_index_Split
      Get_def Let_def resp_Append_def State_Set_def invoke_def takeWhile_proper
      del: go_index.simps)

theorem ApiKey_Create_id_is_prefix_witness:
  "sample_ParseDuration ''2160h'' = Inr 7776000000000000 \<and>
   takeWhile (\<lambda>c. c \<noteq> CHR ''.'') ''abc.secret'' = ''abc'' \<and>
   fst (ApiKeyResource_Create memory_client sample_ParseDuration 1000 1001
          (decoded_ok (sample_ApiKeyResourceModel [])) (prior None) (fresh empty_memory))
     = Done \<lparr>Diagnostics = [],
             State = Some \<lparr>ar_Id = Known ''abc'', ar_Ttl = Known ''2160h'',
               ar_Expired = Known False, ar_CreatedAt = Known (RFC3339 0),
               ar_Expiration = Known (RFC3339 7776000000001000),
               ar_Key = Known ''abc.secret''\<rparr>\<rparr>"
  using ApiKey_Create_id_is_prefix [where ?resp0.0 = "prior None"
      and plan = "decoded_ok (sample_ApiKeyResourceModel [])"
      and client = memory_client and ParseDuration = sample_ParseDuration
      and now_expiry = 1000 and now_fields = 1001 and ?w0.0 = "fresh empty_memory"
      and ttl = 7776000000000000 and secret = "''abc.secret''"
      and ?r1.0 = "empty_memory\<lparr>m_apiKeys :=
            [\<lparr>ak_Prefix = ''abc'', ak_Expiration = Some 7776000000001000, ak_CreatedAt = Some 0\<rparr>]\<rparr>"
      and ?r2.0 = "empty_memory\<lparr>m_apiKeys :=
            [\<lparr>ak_Prefix = ''abc'', ak_Expiration = Some 7776000000001000, ak_CreatedAt = Some 0\<rparr>]\<rparr>"
      and listResponse =
            "[\<lparr>ak_Prefix = ''abc'', ak_Expiration = Some 7776000000001000, ak_CreatedAt = Some 0\<rparr>]"
      and apiKey =
            "\<lparr>ak_Prefix = ''abc'', ak_Expiration = Some 7776000000001000, ak_CreatedAt = Some 0\<rparr>"]
  by (simp add: memory_client_def empty_memory_def fresh_def decoded_ok_def prior_def
      sample_ApiKeyResourceModel_def sample_ParseDuration_def HasError_def
      ApiKeyResource_Create_def ApiKeyResource_readComputedFields_def
      Get_def Let_def resp_Append_def State_Set_def invoke_def After_def)

text \<open>
  Conversely, a \<open>Create\<close> that returns without an error has taken exactly this path:
  the conditions above describe every successful creation.
\<close>

lemma ApiKey_Create_success_path:
  assumes "fst (ApiKeyResource_Create client ParseDuration now_expiry now_fields plan resp0 w0) = Done resp"
    and "\<not> HasError (Diagnostics resp)"
  shows "\<exists>ttl secret r1 listResponse r2 apiKey.
           \<not> HasError (Append (Diagnostics resp0) (decode_diags plan)) \<and>
           ParseDuration (ValueString (ar_Ttl (decoded plan))) = Inr ttl \<and>
           CreateApiKey client (Some (now_expiry + ttl)) (remote w0) = (Inr secret, r1) \<and>
           ListApiKeys client r1 = (Inr listResponse, r2) \<and>
           scan_ApiKeys (takeWhile (\<lambda>c. c \<noteq> CHR ''.'') secret) listResponse = Some apiKey"
  using assms
  by (auto simp: ApiKeyResource_Create_def ApiKeyResource_readComputedFields_def go_index_Split
      Get_def Let_def resp_Append_def resp_AddError_def RemoveResource_def State_Set_def invoke_def
      HasError_AddError
      simp del: go_index.simps
      split: sum.splits prod.splits if_splits option.splits)

section \<open>Node tags and node routes: updating twice\<close>

text \<open>
  One \<open>Update\<close> from a prior state that decodes without diagnostics, on a fresh
  response: it sends the node id of the state with the whole set of the plan, and
  stores what the returned node holds.
\<close>

lemma NodeTags_readComputedFields_again:
  "NodeTagsResource_readComputedFields node (fst (NodeTagsResource_readComputedFields node d))
     = NodeTagsResource_readComputedFields node d"
  by (simp add: NodeTagsResource_readComputedFields_def Let_def split: prod.splits)

lemma NodeTags_Update_unfold:
  "SetTags client \<lparr>st_NodeId = ValueInt64 (nt_NodeId d), st_Tags = GetAttribute_strings (nt_Tags p)\<rparr> (remote w)
     = (res, r') \<Longrightarrow>
   NodeTagsResource_Update client \<lparr>req_State = \<lparr>decoded = d, decode_diags = []\<rparr>, req_Plan = p\<rparr>
       \<lparr>Diagnostics = [], State = Some d\<rparr> w
     = (case res of
          Inl err \<Rightarrow> \<lparr>Diagnostics = [ErrorDiagnostic ''Client Error''
                          (''Unable to set node tags, got error: '' @ err)], State = Some d\<rparr>
        | Inr node \<Rightarrow>
            \<lparr>Diagnostics = Append [] (snd (NodeTagsResource_readComputedFields node d)),
             State = Some (fst (NodeTagsResource_readComputedFields node d))\<rparr>,
        \<lparr>remote = r', calls = calls w @ [SetTagsCall
           \<lparr>st_NodeId = ValueInt64 (nt_NodeId d), st_Tags = GetAttribute_strings (nt_Tags p)\<rparr>]\<rparr>)"
  by (simp add: NodeTagsResource_Update_def Get_def Let_def
      resp_Append_def resp_AddError_def AddError_def State_Set_def invoke_def
      HasError_def split: sum.splits prod.splits)

lemma NodeTags_readComputedFields_NodeId:
  "nt_NodeId (fst (NodeTagsResource_readComputedFields node d)) = nt_NodeId d"
  by (simp add: NodeTagsResource_readComputedFields_def Let_def split: prod.splits)

lemma NodeTags_Update_twice:
  assumes q: "q = \<lparr>st_NodeId = ValueInt64 (nt_NodeId d), st_Tags = GetAttribute_strings (nt_Tags plan)\<rparr>"
  shows "(case NodeTagsResource_Update client
                \<lparr>req_State = \<lparr>decoded = d, decode_diags = []\<rparr>, req_Plan = plan\<rparr>
                \<lparr>Diagnostics = [], State = Some d\<rparr> w0 of
            (resp1, w1) \<Rightarrow>
              (case State resp1 of
                 None \<Rightarrow> False
               | Some d1 \<Rightarrow>
                   (case NodeTagsResource_Update client
                           \<lparr>req_State = \<lparr>decoded = d1, decode_diags = []\<rparr>, req_Plan = plan\<rparr>
                           \<lparr>Diagnostics = [], State = Some d1\<rparr> w1 of
                      (resp2, w2) \<Rightarrow>
                        calls w2 = calls w0 @ [SetTagsCall q, SetTagsCall q] \<and>
                        (fst (SetTags client q (remote w1)) = fst (SetTags client q (remote w0)) \<longrightarrow>
                           State resp2 = State resp1 \<and> Diagnostics resp2 = Diagnostics resp1))))"
proof -
  obtain res r1 where first: "SetTags client q (remote w0) = (res, r1)"
    by (cases "SetTags client q (remote w0)")
  obtain res' r2 where second: "SetTags client q r1 = (res', r2)"
    by (cases "SetTags client q r1")
  show ?thesis
  proof (cases res)
    case (Inl err)
    with first second show ?thesis
      using NodeTags_Update_unfold [of client d plan w0 res r1]
        NodeTags_Update_unfold [of client d plan
          "\<lparr>remote = r1, calls = calls w0 @ [SetTagsCall q]\<rparr>" res' r2]
      by (simp add: q)
  next
    case (Inr node)
    with first second show ?thesis
      using NodeTags_Update_unfold [of client d plan w0 res r1]
        NodeTags_Update_unfold [of client
          "fst (NodeTagsResource_readComputedFields node d)" plan
          "\<lparr>remote = r1, calls = calls w0 @ [SetTagsCall q]\<rparr>" res' r2]
      by (simp add: q NodeTags_readComputedFields_NodeId NodeTags_readComputedFields_again)
  qed
qed

lemma NodeRoutes_readComputedFields_again:
  "NodeRoutesResource_readComputedFields node (fst (NodeRoutesResource_readComputedFields node d))
     = NodeRoutesResource_readComputedFields node d"
  by (simp add: NodeRoutesResource_readComputedFields_def Let_def split: prod.splits)

lemma NodeRoutes_Update_unfold:
  "SetApprovedRoutes client \<lparr>sr_NodeId = ValueInt64 (nr_NodeId d), sr_Routes = GetAttribute_strings (nr_Routes p)\<rparr> (remote w)
     = (res, r') \<Longrightarrow>
   NodeRoutesResource_Update client \<lparr>req_State = \<lparr>decoded = d, decode_diags = []\<rparr>, req_Plan = p\<rparr>
       \<lparr>Diagnostics = [], State = Some d\<rparr> w
     = (case res of
          Inl err \<Rightarrow> \<lparr>Diagnostics = [ErrorDiagnostic ''Client Error''
                          (''Unable to set node routes, got error: '' @ err)], State = Some d\<rparr>
        | Inr node \<Rightarrow>
            \<lparr>Diagnostics = Append [] (snd (NodeRoutesResource_readComputedFields node d)),
             State = Some (fst (NodeRoutesResource_readComputedFields node d))\<rparr>,
        \<lparr>remote = r', calls = calls w @ [SetApprovedRoutesCall
           \<lparr>sr_NodeId = ValueInt64 (nr_NodeId d), sr_Routes = GetAttribute_strings (nr_Routes p)\<rparr>]\<rparr>)"
  by (simp add: NodeRoutesResource_Update_def Get_def Let_def
      resp_Append_def resp_AddError_def AddError_def State_Set_def invoke_def
      HasError_def split: sum.splits prod.splits)

lemma NodeRoutes_readComputedFields_NodeId:
  "nr_NodeId (fst (NodeRoutesResource_readComputedFields node d)) = nr_NodeId d"
  by (simp add: NodeRoutesResource_readComputedFields_def Let_def split: prod.splits)

lemma NodeRoutes_Update_twice:
  assumes q: "q = \<lparr>sr_NodeId = ValueInt64 (nr_NodeId d), sr_Routes = GetAttribute_strings (nr_Routes plan)\<rparr>"
  shows "(case NodeRoutesResource_Update client
                \<lparr>req_State = \<lparr>decoded = d, decode_diags = []\<rparr>, req_Plan = plan\<rparr>
                \<lparr>Diagnostics = [], State = Some d\<rparr> w0 of
            (resp1, w1) \<Rightarrow>
              (case State resp1 of
                 None \<Rightarrow> False
               | Some d1 \<Rightarrow>
                   (case NodeRoutesResource_Update client
                           \<lparr>req_State = \<lparr>decoded = d1, decode_diags = []\<rparr>, req_Plan = plan\<rparr>
                           \<lparr>Diagnostics = [], State = Some d1\<rparr> w1 of
                      (resp2, w2) \<Rightarrow>
                        calls w2 = calls w0 @ [SetApprovedRoutesCall q, SetApprovedRoutesCall q] \<and>
                        (fst (SetApprovedRoutes client q (remote w1)) = fst (SetApprovedRoutes client q (remote w0)) \<longrightarrow>
                           State resp2 = State resp1 \<and> Diagnostics resp2 = Diagnostics resp1))))"
proof -
  obtain res r1 where first: "SetApprovedRoutes client q (remote w0) = (res, r1)"
    by (cases "SetApprovedRoutes client q (remote w0)")
  obtain res' r2 where second: "SetApprovedRoutes client q r1 = (res', r2)"
    by (cases "SetApprovedRoutes client q r1")
  show ?thesis
  proof (cases res)
    case (Inl err)
    with first second show ?thesis
      using NodeRoutes_Update_unfold [of client d plan w0 res r1]
        NodeRoutes_Update_unfold [of client d plan
          "\<lparr>remote = r1, calls = calls w0 @ [SetApprovedRoutesCall q]\<rparr>" res' r2]
      by (simp add: q)
  next
    case (Inr node)
    with first second show ?thesis
      using NodeRoutes_Update_unfold [of client d plan w0 res r1]
        NodeRoutes_Update_unfold [of client
          "fst (NodeRoutesResource_readComputedFields node d)" plan
          "\<lparr>remote = r1, calls = calls w0 @ [SetApprovedRoutesCall q]\<rparr>" res' r2]
      by (simp add: q NodeRoutes_readComputedFields_NodeId NodeRoutes_readComputedFields_again)
  qed
qed

text \<open>
  Claim C8.  Two \<open>Update\<close>s in succession with the same plan, the second starting from
  the state the first has written, send the same request both times: the node id with
  the complete set of the plan, whatever the service holds.  When the service answers
  the second request as it answered the first (replacing a set by itself changes
  nothing), the second update ends with the same state, hence the same observed set,
  and the same diagnostics as the first.  This holds for the node tags and for the
  node routes resource.
\<close>

theorem Update_twice_same_observed:
  "(q = \<lparr>st_NodeId = ValueInt64 (nt_NodeId d), st_Tags = GetAttribute_strings (nt_Tags plan)\<rparr>
    \<longrightarrow>
      (case NodeTagsResource_Update client
               \<lparr>req_State = \<lparr>decoded = d, decode_diags = []\<rparr>, req_Plan = plan\<rparr>
               \<lparr>Diagnostics = [], State = Some d\<rparr> w0 of
         (resp1, w1) \<Rightarrow>
           (case State resp1 of
              None \<Rightarrow> False
            | Some d1 \<Rightarrow>
                (case NodeTagsResource_Update client
                        \<lparr>req_State = \<lparr>decoded = d1, decode_diags = []\<rparr>, req_Plan = plan\<rparr>
                        \<lparr>Diagnostics = [], State = Some d1\<rparr> w1 of
                   (resp2, w2) \<Rightarrow>
                     calls w2 = calls w0 @ [SetTagsCall q, SetTagsCall q] \<and>
                     (fst (SetTags client q (remote w1)) = fst (SetTags client q (remote w0)) \<longrightarrow>
                        State resp2 = State resp1 \<and> Diagnostics resp2 = Diagnostics resp1))))) \<and>
   (q_r = \<lparr>sr_NodeId = ValueInt64 (nr_NodeId d_r),
            sr_Routes = GetAttribute_strings (nr_Routes plan_r)\<rparr>
    \<longrightarrow>
      (case NodeRoutesResource_Update client_r
               \<lparr>req_State = \<lparr>decoded = d_r, decode_diags = []\<rparr>, req_Plan = plan_r\<rparr>
               \<lparr>Diagnostics = [], State = Some d_r\<rparr> w_r of
         (resp1, w1) \<Rightarrow>
           (case State resp1 of
              None \<Rightarrow> False
            | Some d1 \<Rightarrow>
                (case NodeRoutesResource_Update client_r
                        \<lparr>req_State = \<lparr>decoded = d1, decode_diags = []\<rparr>, req_Plan = plan_r\<rparr>
                        \<lparr>Diagnostics = [], State = Some d1\<rparr> w1 of
                   (resp2, w2) \<Rightarrow>
                     calls w2 = calls w_r @ [SetApprovedRoutesCall q_r, SetApprovedRoutesCall q_r] \<and>
                     (fst (SetApprovedRoutes client_r q_r (remote w1))
                        = fst (SetApprovedRoutes client_r q_r (remote w_r)) \<longrightarrow>
                        State resp2 = State resp1 \<and> Diagnostics resp2 = Diagnostics resp1)))))"
  using NodeTags_Update_twice [where q = q and d = d and plan = plan and client = client
      and ?w0.0 = w0]
    NodeRoutes_Update_twice [where q = q_r and d = d_r and plan = plan_r and client = client_r
      and ?w0.0 = w_r]
  by simp

theorem Update_twice_same_observed_witness:
  "fst (SetTags memory_client \<lparr>st_NodeId = 7, st_Tags = [''tag:prod'']\<rparr>
          (empty_memory\<lparr>m_nodes := [sample_Node\<lparr>node_ForcedTags := Some [''tag:prod'']\<rparr>]\<rparr>))
     = fst (SetTags memory_client \<lparr>st_NodeId = 7, st_Tags = [''tag:prod'']\<rparr>
          (empty_memory\<lparr>m_nodes := [sample_Node]\<rparr>)) \<and>
   fst (SetApprovedRoutes memory_client \<lparr>sr_NodeId = 7, sr_Routes = [''192.168.0.0/24'']\<rparr>
          (empty_memory\<lparr>m_nodes :=
             [sample_Node\<lparr>node_ApprovedRoutes := Some [''192.168.0.0/24'']\<rparr>]\<rparr>))
     = fst (SetApprovedRoutes memory_client \<lparr>sr_NodeId = 7, sr_Routes = [''192.168.0.0/24'']\<rparr>
          (empty_memory\<lparr>m_nodes := [sample_Node]\<rparr>)) \<and>
   NodeTagsResource_Update memory_client
      \<lparr>req_State = \<lparr>decoded = sample_NodeTagsResourceModel [''tag:old''], decode_diags = []\<rparr>,
       req_Plan = sample_NodeTagsResourceModel [''tag:prod'']\<rparr>
      \<lparr>Diagnostics = [], State = Some (sample_NodeTagsResourceModel [''tag:old''])\<rparr>
      (fresh (empty_memory\<lparr>m_nodes := [sample_Node]\<rparr>))
     = (\<lparr>Diagnostics = [], State = Some (sample_NodeTagsResourceModel [''tag:prod''])\<rparr>,
        \<lparr>remote = empty_memory\<lparr>m_nodes := [sample_Node\<lparr>node_ForcedTags := Some [''tag:prod'']\<rparr>]\<rparr>,
         calls = [SetTagsCall \<lparr>st_NodeId = 7, st_Tags = [''tag:prod'']\<rparr>]\<rparr>) \<and>
   NodeTagsResource_Update memory_client
      \<lparr>req_State = \<lparr>decoded = sample_NodeTagsResourceModel [''tag:prod''], decode_diags = []\<rparr>,
       req_Plan = sample_NodeTagsResourceModel [''tag:prod'']\<rparr>
      \<lparr>Diagnostics = [], State = Some (sample_NodeTagsResourceModel [''tag:prod''])\<rparr>
      \<lparr>remote = empty_memory\<lparr>m_nodes := [sample_Node\<lparr>node_ForcedTags := Some [''tag:prod'']\<rparr>]\<rparr>,
       calls = [SetTagsCall \<lparr>st_NodeId = 7, st_Tags = [''tag:prod'']\<rparr>]\<rparr>
     = (\<lparr>Diagnostics = [], State = Some (sample_NodeTagsResourceModel [''tag:prod''])\<rparr>,
        \<lparr>remote = empty_memory\<lparr>m_nodes := [sample_Node\<lparr>node_ForcedTags := Some [''tag:prod'']\<rparr>]\<rparr>,
         calls = [SetTagsCall \<lparr>st_NodeId = 7, st_Tags = [''tag:prod'']\<rparr>,
                  SetTagsCall \<lparr>st_NodeId = 7, st_Tags = [''tag:prod'']\<rparr>]\<rparr>) \<and>
   NodeRoutesResource_Update memory_client
      \<lparr>req_State = \<lparr>decoded = sample_NodeRoutesResourceModel [''10.0.0.0/8''], decode_diags = []\<rparr>,
       req_Plan = sample_NodeRoutesResourceModel [''192.168.0.0/24'']\<rparr>
      \<lparr>Diagnostics = [], State = Some (sample_NodeRoutesResourceModel [''10.0.0.0/8''])\<rparr>
      (fresh (empty_memory\<lparr>m_nodes := [sample_Node]\<rparr>))
     = (\<lparr>Diagnostics = [], State = Some (sample_NodeRoutesResourceModel [''192.168.0.0/24''])\<rparr>,
        \<lparr>remote = empty_memory\<lparr>m_nodes :=
           [sample_Node\<lparr>node_ApprovedRoutes := Some [''192.168.0.0/24'']\<rparr>]\<rparr>,
         calls = [SetApprovedRoutesCall \<lparr>sr_NodeId = 7, sr_Routes = [''192.168.0.0/24'']\<rparr>]\<rparr>) \<and>
   NodeRoutesResource_Update memory_client
      \<lparr>req_State = \<lparr>decoded = sample_NodeRoutesResourceModel [''192.168.0.0/24''], decode_diags = []\<rparr>,
       req_Plan = sample_NodeRoutesResourceModel [''192.168.0.0/24'']\<rparr>
      \<lparr>Diagnostics = [], State = Some (sample_NodeRoutesResourceModel [''192.168.0.0/24''])\<rparr>
      \<lparr>remote = empty_memory\<lparr>m_nodes :=
           [sample_Node\<lparr>node_ApprovedRoutes := Some [''192.168.0.0/24'']\<rparr>]\<rparr>,
       calls = [SetApprovedRoutesCall \<lparr>sr_NodeId = 7, sr_Routes = [''192.168.0.0/24'']\<rparr>]\<rparr>
     = (\<lparr>Diagnostics = [], State = Some (sample_NodeRoutesResourceModel [''192.168.0.0/24''])\<rparr>,
        \<lparr>remote = empty_memory\<lparr>m_nodes :=
           [sample_Node\<lparr>node_ApprovedRoutes := Some [''192.168.0.0/24'']\<rparr>]\<rparr>,
         calls = [SetApprovedRoutesCall \<lparr>sr_NodeId = 7, sr_Routes = [''192.168.0.0/24'']\<rparr>,
                  SetApprovedRoutesCall \<lparr>sr_NodeId = 7, sr_Routes = [''192.168.0.0/24'']\<rparr>]\<rparr>)"
  using Update_twice_same_observed [where
      q = "\<lparr>st_NodeId = 7, st_Tags = [''tag:prod'']\<rparr>"
      and d = "sample_NodeTagsResourceModel [''tag:old'']"
      and plan = "sample_NodeTagsResourceModel [''tag:prod'']"
      and client = memory_client
      and ?w0.0 = "fresh (empty_memory\<lparr>m_nodes := [sample_Node]\<rparr>)"
      and q_r = "\<lparr>sr_NodeId = 7, sr_Routes = [''192.168.0.0/24'']\<rparr>"
      and d_r = "sample_NodeRoutesResourceModel [''10.0.0.0/8'']"
      and plan_r = "sample_NodeRoutesResourceModel [''192.168.0.0/24'']"
      and client_r = memory_client
      and w_r = "fresh (empty_memory\<lparr>m_nodes := [sample_Node]\<rparr>)"]
  by (simp add: memory_client_def empty_memory_def fresh_def sample_Node_def
      sample_NodeTagsResourceModel_def sample_NodeRoutesResourceModel_def
      NodeTagsResource_Update_def NodeTagsResource_readComputedFields_def
      NodeRoutesResource_Update_def NodeRoutesResource_readComputedFields_def
      GetAttribute_strings_def SetValueFrom_def HasError_def
      Get_def Let_def resp_Append_def State_Set_def invoke_def)

section \<open>Not found and expired: what a read reports\<close>

lemma UserResource_Read_absent:
  "\<not> HasError (Append (Diagnostics resp0) (decode_diags state)) \<Longrightarrow>
   ListUsers client (ValueInt64 (ur_Id (decoded state))) (remote w0) = (Inr users, r') \<Longrightarrow>
   users = None \<or> len users \<noteq> 1 \<Longrightarrow>
   fst (UserResource_Read client state resp0 w0)
     = Done (RemoveResource (resp_AddError ''user not found'' ''user not found''
         (resp_Append (decode_diags state) resp0)))"
  by (auto simp: UserResource_Read_def Get_def Let_def resp_Append_def invoke_def)

lemma PreAuthKeyResource_Read_absent:
  "\<not> HasError (Append (Diagnostics resp0) (decode_diags state)) \<Longrightarrow>
   ListPreAuthKeys client (ValueInt64 (pk_UserId (decoded state))) (remote w0) = (Inr keys, r') \<Longrightarrow>
   scan_PreAuthKeys (ValueInt64 (pk_Id (decoded state))) keys None = None \<Longrightarrow>
   fst (PreAuthKeyResource_Read client now_fields now_check state resp0 w0)
     = Done (RemoveResource (resp_AddError ''Pre auth key not found'' ''Pre auth key not found''
         (resp_Append (decode_diags state) resp0)))"
  by (simp add: PreAuthKeyResource_Read_def Get_def Let_def resp_Append_def invoke_def)

lemma PreAuthKeyResource_Read_expired:
  "\<not> HasError (Append (Diagnostics resp0) (decode_diags state)) \<Longrightarrow>
   ListPreAuthKeys client (ValueInt64 (pk_UserId (decoded state))) (remote w0) = (Inr keys, r') \<Longrightarrow>
   scan_PreAuthKeys (ValueInt64 (pk_Id (decoded state))) keys None = Some k \<Longrightarrow>
   now_check > AsTime (pak_Expiration k) \<Longrightarrow>
   fst (PreAuthKeyResource_Read client now_fields now_check state resp0 w0)
     = Done \<lparr>Diagnostics = Append (Append (Diagnostics resp0) (decode_diags state))
                            (snd (SetValueFrom (pak_AclTags k))),
             State = None\<rparr>"
  by (simp add: PreAuthKeyResource_Read_def PreAuthKeyResource_readComputedFields_def
      Get_def Let_def resp_Append_def State_Set_def RemoveResource_def invoke_def After_def
      split: prod.splits)

lemma SetValueFrom_no_repeat:
  "(case xs of None \<Rightarrow> True | Some ys \<Rightarrow> distinct ys) \<Longrightarrow> snd (SetValueFrom xs) = []"
  by (cases xs) (simp_all add: SetValueFrom_None SetValueFrom_Some)

lemma NodeTagsResource_Read_absent:
  "\<not> HasError (Append (Diagnostics resp0) (decode_diags state)) \<Longrightarrow>
   GetNode client (ValueInt64 (nt_NodeId (decoded state))) (remote w0) = (Inr None, r') \<Longrightarrow>
   fst (NodeTagsResource_Read client state resp0 w0)
     = RemoveResource (resp_AddError ''node not found'' ''node not found''
         (resp_Append (decode_diags state) resp0))"
  by (simp add: NodeTagsResource_Read_def Get_def Let_def resp_Append_def invoke_def)

lemma NodeRoutesResource_Read_absent:
  "\<not> HasError (Append (Diagnostics resp0) (decode_diags state)) \<Longrightarrow>
   GetNode client (ValueInt64 (nr_NodeId (decoded state))) (remote w0) = (Inr None, r') \<Longrightarrow>
   fst (NodeRoutesResource_Read client state resp0 w0)
     = RemoveResource (resp_AddError ''node not found'' ''node not found''
         (resp_Append (decode_diags state) resp0))"
  by (simp add: NodeRoutesResource_Read_def Get_def Let_def resp_Append_def invoke_def)

lemma ApiKeyResource_Read_absent:
  "\<not> HasError (Append (Diagnostics resp0) (decode_diags state)) \<Longrightarrow>
   ListApiKeys client (remote w0) = (Inr apiKeys, r') \<Longrightarrow>
   scan_ApiKeys (ValueString (ar_Id (decoded state))) apiKeys = None \<Longrightarrow>
   fst (ApiKeyResource_Read client now state resp0 w0)
     = \<lparr>Diagnostics = Append (Diagnostics resp0) (decode_diags state), State = None\<rparr>"
  by (simp add: ApiKeyResource_Read_def ApiKeyResource_readComputedFields_def
      Get_def Let_def resp_Append_def RemoveResource_def invoke_def)

lemma ApiKeyResource_Read_expired:
  "\<not> HasError (Append (Diagnostics resp0) (decode_diags state)) \<Longrightarrow>
   ListApiKeys client (remote w0) = (Inr apiKeys, r') \<Longrightarrow>
   scan_ApiKeys (ValueString (ar_Id (decoded state))) apiKeys = Some apiKey \<Longrightarrow>
   now > AsTime (ak_Expiration apiKey) \<Longrightarrow>
   fst (ApiKeyResource_Read client now state resp0 w0)
     = \<lparr>Diagnostics = Append (Diagnostics resp0) (decode_diags state), State = None\<rparr>"
  by (simp add: ApiKeyResource_Read_def ApiKeyResource_readComputedFields_def
      Get_def Let_def resp_Append_def State_Set_def RemoveResource_def invoke_def After_def)

lemma removed_with_error:
  "State (RemoveResource (resp_AddError s d resp)) = None \<and>
   HasError (Diagnostics (RemoveResource (resp_AddError s d resp)))"
  by (simp add: RemoveResource_def resp_AddError_def HasError_AddError)

text \<open>
  A read that finds the node gone removes the state and reports an error; so does a
  read that finds no user with the id.
\<close>

theorem Read_not_found_reports_error:
  "GetNode memory_client 7 empty_memory = (Inr None, empty_memory) \<and>
   State (fst (NodeTagsResource_Read memory_client (decoded_ok (sample_NodeTagsResourceModel []))
      (prior (Some (sample_NodeTagsResourceModel []))) (fresh empty_memory))) = None \<and>
   HasError (Diagnostics (fst (NodeTagsResource_Read memory_client
      (decoded_ok (sample_NodeTagsResourceModel []))
      (prior (Some (sample_NodeTagsResourceModel []))) (fresh empty_memory)))) \<and>
   ListUsers memory_client 9 empty_memory = (Inr (Some []), empty_memory) \<and>
   fst (UserResource_Read memory_client (decoded_ok (sample_UserResourceModel 9))
      (prior (Some (sample_UserResourceModel 9))) (fresh empty_memory))
     = Done \<lparr>Diagnostics = [ErrorDiagnostic ''user not found'' ''user not found''], State = None\<rparr>"
  by (simp add: memory_client_def empty_memory_def fresh_def decoded_ok_def prior_def
      sample_NodeTagsResourceModel_def sample_UserResourceModel_def
      NodeTagsResource_Read_def UserResource_Read_def HasError_def
      Get_def Let_def resp_Append_def resp_AddError_def AddError_def RemoveResource_def invoke_def)

text \<open>
  Claim C5, as the code has it.  A read that finds its entity absent, or its key
  expired, removes the state.  For a user, a pre auth key, a node's tags and a node's
  routes the absent entity is also reported as an error ("user not found",
  "Pre auth key not found", "node not found").  An absent api key and an expired api
  key remove the state without adding a diagnostic.  An expired pre auth key removes
  the state and adds no diagnostic for the expiry: the diagnostics are the prior ones
  and those of converting the key's acl tags into a set, which are none when the tag
  list is \<open>nil\<close> or repeats no element.  In each case the prior diagnostics hold no
  error and the remote call succeeds.
\<close>

theorem Read_not_found_diagnostics:
  "(\<not> HasError (Append (Diagnostics resp_u) (decode_diags state_u)) \<and>
    ListUsers client_u (ValueInt64 (ur_Id (decoded state_u))) (remote w_u) = (Inr users, r_u) \<and>
    (users = None \<or> len users \<noteq> 1) \<longrightarrow>
      (case fst (UserResource_Read client_u state_u resp_u w_u) of
         Panic \<Rightarrow> False
       | Done resp \<Rightarrow> State resp = None \<and> HasError (Diagnostics resp))) \<and>
   (\<not> HasError (Append (Diagnostics resp_p) (decode_diags state_p)) \<and>
    ListPreAuthKeys client_p (ValueInt64 (pk_UserId (decoded state_p))) (remote w_p) = (Inr keys_p, r_p) \<and>
    scan_PreAuthKeys (ValueInt64 (pk_Id (decoded state_p))) keys_p None = None \<longrightarrow>
      (case fst (PreAuthKeyResource_Read client_p now_fields_p now_check_p state_p resp_p w_p) of
         Panic \<Rightarrow> False
       | Done resp \<Rightarrow> State resp = None \<and> HasError (Diagnostics resp))) \<and>
   (\<not> HasError (Append (Diagnostics resp_t) (decode_diags state_t)) \<and>
    GetNode client_t (ValueInt64 (nt_NodeId (decoded state_t))) (remote w_t) = (Inr None, r_t) \<longrightarrow>
      State (fst (NodeTagsResource_Read client_t state_t resp_t w_t)) = None \<and>
      HasError (Diagnostics (fst (NodeTagsResource_Read client_t state_t resp_t w_t)))) \<and>
   (\<not> HasError (Append (Diagnostics resp_r) (decode_diags state_r)) \<and>
    GetNode client_r (ValueInt64 (nr_NodeId (decoded state_r))) (remote w_r) = (Inr None, r_r) \<longrightarrow>
      State (fst (NodeRoutesResource_Read client_r state_r resp_r w_r)) = None \<and>
      HasError (Diagnostics (fst (NodeRoutesResource_Read client_r state_r resp_r w_r)))) \<and>
   (\<not> HasError (Append (Diagnostics resp_a) (decode_diags state_a)) \<and>
    ListApiKeys client_a (remote w_a) = (Inr keys_a, r_a) \<and>
    scan_ApiKeys (ValueString (ar_Id (decoded state_a))) keys_a = None \<longrightarrow>
      State (fst (ApiKeyResource_Read client_a now_a state_a resp_a w_a)) = None \<and>
      Diagnostics (fst (ApiKeyResource_Read client_a now_a state_a resp_a w_a))
        = Append (Diagnostics resp_a) (decode_diags state_a) \<and>
      \<not> HasError (Diagnostics (fst (ApiKeyResource_Read client_a now_a state_a resp_a w_a)))) \<and>
   (\<not> HasError (Append (Diagnostics resp_e) (decode_diags state_e)) \<and>
    ListPreAuthKeys client_e (ValueInt64 (pk_UserId (decoded state_e))) (remote w_e) = (Inr keys_e, r_e) \<and>
    scan_PreAuthKeys (ValueInt64 (pk_Id (decoded state_e))) keys_e None = Some k_e \<and>
    now_check_e > AsTime (pak_Expiration k_e) \<longrightarrow>
      (case fst (PreAuthKeyResource_Read client_e now_fields_e now_check_e state_e resp_e w_e) of
         Panic \<Rightarrow> False
       | Done resp \<Rightarrow> State resp = None \<and>
           Diagnostics resp = Append (Append (Diagnostics resp_e) (decode_diags state_e))
                                (snd (SetValueFrom (pak_AclTags k_e))) \<and>
           ((case pak_AclTags k_e of None \<Rightarrow> True | Some tags \<Rightarrow> distinct tags) \<longrightarrow>
              Diagnostics resp = Append (Diagnostics resp_e) (decode_diags state_e) \<and>
              \<not> HasError (Diagnostics resp)))) \<and>
   (\<not> HasError (Append (Diagnostics resp_x) (decode_diags state_x)) \<and>
    ListApiKeys client_x (remote w_x) = (Inr keys_x, r_x) \<and>
    scan_ApiKeys (ValueString (ar_Id (decoded state_x))) keys_x = Some k_x \<and>
    now_x > AsTime (ak_Expiration k_x) \<longrightarrow>
      State (fst (ApiKeyResource_Read client_x now_x state_x resp_x w_x)) = None \<and>
      Diagnostics (fst (ApiKeyResource_Read client_x now_x state_x resp_x w_x))
        = Append (Diagnostics resp_x) (decode_diags state_x) \<and>
      \<not> HasError (Diagnostics (fst (ApiKeyResource_Read client_x now_x state_x resp_x w_x))))"
proof (intro conjI impI; elim conjE)
  show "(case fst (UserResource_Read client_u state_u resp_u w_u) of
           Panic \<Rightarrow> False
         | Done resp \<Rightarrow> State resp = None \<and> HasError (Diagnostics resp))"
    if "\<not> HasError (Append (Diagnostics resp_u) (decode_diags state_u))"
      and "ListUsers client_u (ValueInt64 (ur_Id (decoded state_u))) (remote w_u) = (Inr users, r_u)"
      and "users = None \<or> len users \<noteq> 1"
    using UserResource_Read_absent [OF that] by (simp add: removed_with_error)
  show "(case fst (PreAuthKeyResource_Read client_p now_fields_p now_check_p state_p resp_p w_p) of
           Panic \<Rightarrow> False
         | Done resp \<Rightarrow> State resp = None \<and> HasError (Diagnostics resp))"
    if "\<not> HasError (Append (Diagnostics resp_p) (decode_diags state_p))"
      and "ListPreAuthKeys client_p (ValueInt64 (pk_UserId (decoded state_p))) (remote w_p)
             = (Inr keys_p, r_p)"
      and "scan_PreAuthKeys (ValueInt64 (pk_Id (decoded state_p))) keys_p None = None"
    using PreAuthKeyResource_Read_absent [OF that] by (simp add: removed_with_error)
  show "State (fst (NodeTagsResource_Read client_t state_t resp_t w_t)) = None"
    and "HasError (Diagnostics (fst (NodeTagsResource_Read client_t state_t resp_t w_t)))"
    if "\<not> HasError (Append (Diagnostics resp_t) (decode_diags state_t))"
      and "GetNode client_t (ValueInt64 (nt_NodeId (decoded state_t))) (remote w_t) = (Inr None, r_t)"
    using NodeTagsResource_Read_absent [OF that] by (simp_all add: removed_with_error)
  show "State (fst (NodeRoutesResource_Read client_r state_r resp_r w_r)) = None"
    and "HasError (Diagnostics (fst (NodeRoutesResource_Read client_r state_r resp_r w_r)))"
    if "\<not> HasError (Append (Diagnostics resp_r) (decode_diags state_r))"
      and "GetNode client_r (ValueInt64 (nr_NodeId (decoded state_r))) (remote w_r) = (Inr None, r_r)"
    using NodeRoutesResource_Read_absent [OF that] by (simp_all add: removed_with_error)
  show "State (fst (ApiKeyResource_Read client_a now_a state_a resp_a w_a)) = None"
    and "Diagnostics (fst (ApiKeyResource_Read client_a now_a state_a resp_a w_a))
           = Append (Diagnostics resp_a) (decode_diags state_a)"
    and "\<not> HasError (Diagnostics (fst (ApiKeyResource_Read client_a now_a state_a resp_a w_a)))"
    if "\<not> HasError (Append (Diagnostics resp_a) (decode_diags state_a))"
      and "ListApiKeys client_a (remote w_a) = (Inr keys_a, r_a)"
      and "scan_ApiKeys (ValueString (ar_Id (decoded state_a))) keys_a = None"
    using ApiKeyResource_Read_absent [OF that, of now_a] that(1) by simp_all
  show "(case fst (PreAuthKeyResource_Read client_e now_fields_e now_check_e state_e resp_e w_e) of
           Panic \<Rightarrow> False
         | Done resp \<Rightarrow> State resp = None \<and>
             Diagnostics resp = Append (Append (Diagnostics resp_e) (decode_diags state_e))
                                  (snd (SetValueFrom (pak_AclTags k_e))) \<and>
             ((case pak_AclTags k_e of None \<Rightarrow> True | Some tags \<Rightarrow> distinct tags) \<longrightarrow>
                Diagnostics resp = Append (Diagnostics resp_e) (decode_diags state_e) \<and>
                \<not> HasError (Diagnostics resp)))"
    if "\<not> HasError (Append (Diagnostics resp_e) (decode_diags state_e))"
      and "ListPreAuthKeys client_e (ValueInt64 (pk_UserId (decoded state_e))) (remote w_e)
             = (Inr keys_e, r_e)"
      and "scan_PreAuthKeys (ValueInt64 (pk_Id (decoded state_e))) keys_e None = Some k_e"
      and "now_check_e > AsTime (pak_Expiration k_e)"
    using PreAuthKeyResource_Read_expired [OF that, of now_fields_e] that(1)
    by (simp add: SetValueFrom_no_repeat)
  show "State (fst (ApiKeyResource_Read client_x now_x state_x resp_x w_x)) = None"
    and "Diagnostics (fst (ApiKeyResource_Read client_x now_x state_x resp_x w_x))
           = Append (Diagnostics resp_x) (decode_diags state_x)"
    and "\<not> HasError (Diagnostics (fst (ApiKeyResource_Read client_x now_x state_x resp_x w_x)))"
    if "\<not> HasError (Append (Diagnostics resp_x) (decode_diags state_x))"
      and "ListApiKeys client_x (remote w_x) = (Inr keys_x, r_x)"
      and "scan_ApiKeys (ValueString (ar_Id (decoded state_x))) keys_x = Some k_x"
      and "now_x > AsTime (ak_Expiration k_x)"
    using ApiKeyResource_Read_expired [OF that] that(1) by simp_all
qed

theorem Read_not_found_diagnostics_witness:
  "fst (UserResource_Read memory_client (decoded_ok (sample_UserResourceModel 9))
      (prior (Some (sample_UserResourceModel 9))) (fresh (empty_memory\<lparr>m_users := [sample_user]\<rparr>)))
     = Done \<lparr>Diagnostics = [ErrorDiagnostic ''user not found'' ''user not found''], State = None\<rparr> \<and>
   fst (PreAuthKeyResource_Read memory_client 99 101
      (decoded_ok (sample_PreAuthKeyResourceModel Null))
      (prior (Some (sample_PreAuthKeyResourceModel Null))) (fresh empty_memory))
     = Done \<lparr>Diagnostics = [ErrorDiagnostic ''Pre auth key not found'' ''Pre auth key not found''],
             State = None\<rparr> \<and>
   fst (NodeTagsResource_Read memory_client (decoded_ok (sample_NodeTagsResourceModel []))
      (prior (Some (sample_NodeTagsResourceModel []))) (fresh empty_memory))
     = \<lparr>Diagnostics = [ErrorDiagnostic ''node not found'' ''node not found''], State = None\<rparr> \<and>
   fst (NodeRoutesResource_Read memory_client (decoded_ok (sample_NodeRoutesResourceModel []))
      (prior (Some (sample_NodeRoutesResourceModel []))) (fresh empty_memory))
     = \<lparr>Diagnostics = [ErrorDiagnostic ''node not found'' ''node not found''], State = None\<rparr> \<and>
   fst (ApiKeyResource_Read memory_client 101 (decoded_ok (sample_ApiKeyResourceModel ''abc''))
      (prior (Some (sample_ApiKeyResourceModel ''abc''))) (fresh empty_memory))
     = \<lparr>Diagnostics = [], State = None\<rparr> \<and>
   fst (PreAuthKeyResource_Read memory_client 99 101
      (decoded_ok (sample_PreAuthKeyResourceModel Null))
      (prior (Some (sample_PreAuthKeyResourceModel Null)))
      (fresh (empty_memory\<lparr>m_preAuthKeys := [sample_PreAuthKey]\<rparr>)))
     = Done \<lparr>Diagnostics = [], State = None\<rparr> \<and>
   fst (ApiKeyResource_Read memory_client 101 (decoded_ok (sample_ApiKeyResourceModel ''abc''))
      (prior (Some (sample_ApiKeyResourceModel ''abc'')))
      (fresh (empty_memory\<lparr>m_apiKeys := [sample_ApiKey]\<rparr>)))
     = \<lparr>Diagnostics = [], State = None\<rparr> \<and>
   fst (PreAuthKeyResource_Read memory_client 99 101
      (decoded_ok (sample_PreAuthKeyResourceModel Null))
      (prior (Some (sample_PreAuthKeyResourceModel Null)))
      (fresh (empty_memory\<lparr>m_preAuthKeys :=
         [sample_PreAuthKey\<lparr>pak_AclTags := Some [''tag:a'', ''tag:a'']\<rparr>]\<rparr>)))
     = Done \<lparr>Diagnostics = [ErrorDiagnostic ''Duplicate Set Element''
                                ''This attribute contains duplicate values of: tag:a''],
             State = None\<rparr>"
  using Read_not_found_diagnostics [where
      resp_e = "prior (Some (sample_PreAuthKeyResourceModel Null))"
      and state_e = "decoded_ok (sample_PreAuthKeyResourceModel Null)"
      and client_e = memory_client
      and w_e = "fresh (empty_memory\<lparr>m_preAuthKeys :=
            [sample_PreAuthKey\<lparr>pak_AclTags := Some [''tag:a'', ''tag:a'']\<rparr>]\<rparr>)"
      and keys_e = "[sample_PreAuthKey\<lparr>pak_AclTags := Some [''tag:a'', ''tag:a'']\<rparr>]"
      and r_e = "empty_memory\<lparr>m_preAuthKeys :=
            [sample_PreAuthKey\<lparr>pak_AclTags := Some [''tag:a'', ''tag:a'']\<rparr>]\<rparr>"
      and k_e = "sample_PreAuthKey\<lparr>pak_AclTags := Some [''tag:a'', ''tag:a'']\<rparr>"
      and now_fields_e = 99 and now_check_e = 101]
    Read_not_found_diagnostics [where
      resp_u = "prior (Some (sample_UserResourceModel 9))"
      and state_u = "decoded_ok (sample_UserResourceModel 9)"
      and client_u = memory_client
      and w_u = "fresh (empty_memory\<lparr>m_users := [sample_user]\<rparr>)"
      and users = "Some []" and r_u = "empty_memory\<lparr>m_users := [sample_user]\<rparr>"
      and resp_p = "prior (Some (sample_PreAuthKeyResourceModel Null))"
      and state_p = "decoded_ok (sample_PreAuthKeyResourceModel Null)"
      and client_p = memory_client and w_p = "fresh empty_memory"
      and keys_p = "[]" and r_p = empty_memory and now_fields_p = 99 and now_check_p = 101
      and resp_t = "prior (Some (sample_NodeTagsResourceModel []))"
      and state_t = "decoded_ok (sample_NodeTagsResourceModel [])"
      and client_t = memory_client and w_t = "fresh empty_memory" and r_t = empty_memory
      and resp_r = "prior (Some (sample_NodeRoutesResourceModel []))"
      and state_r = "decoded_ok (sample_NodeRoutesResourceModel [])"
      and client_r = memory_client and w_r = "fresh empty_memory" and r_r = empty_memory
      and resp_a = "prior (Some (sample_ApiKeyResourceModel ''abc''))"
      and state_a = "decoded_ok (sample_ApiKeyResourceModel ''abc'')"
      and client_a = memory_client and w_a = "fresh empty_memory"
      and keys_a = "[]" and r_a = empty_memory and now_a = 101
      and resp_e = "prior (Some (sample_PreAuthKeyResourceModel Null))"
      and state_e = "decoded_ok (sample_PreAuthKeyResourceModel Null)"
      and client_e = memory_client
      and w_e = "fresh (empty_memory\<lparr>m_preAuthKeys := [sample_PreAuthKey]\<rparr>)"
      and keys_e = "[sample_PreAuthKey]"
      and r_e = "empty_memory\<lparr>m_preAuthKeys := [sample_PreAuthKey]\<rparr>"
      and k_e = sample_PreAuthKey and now_fields_e = 99 and now_check_e = 101
      and resp_x = "prior (Some (sample_ApiKeyResourceModel ''abc''))"
      and state_x = "decoded_ok (sample_ApiKeyResourceModel ''abc'')"
      and client_x = memory_client
      and w_x = "fresh (empty_memory\<lparr>m_apiKeys := [sample_ApiKey]\<rparr>)"
      and keys_x = "[sample_ApiKey]"
      and r_x = "empty_memory\<lparr>m_apiKeys := [sample_ApiKey]\<rparr>"
      and k_x = sample_ApiKey and now_x = 101]
  by (simp add: memory_client_def empty_memory_def fresh_def decoded_ok_def prior_def
      sample_user_def sample_UserResourceModel_def sample_PreAuthKey_def
      sample_PreAuthKeyResourceModel_def sample_NodeTagsResourceModel_def
      sample_NodeRoutesResourceModel_def sample_ApiKey_def sample_ApiKeyResourceModel_def
      UserResource_Read_def PreAuthKeyResource_Read_def PreAuthKeyResource_readComputedFields_def
      NodeTagsResource_Read_def NodeRoutesResource_Read_def
      ApiKeyResource_Read_def ApiKeyResource_readComputedFields_def SetValueFrom_def
      HasError_def Get_def Let_def resp_Append_def resp_AddError_def AddError_def State_Set_def
      RemoveResource_def invoke_def After_def)

section \<open>The provider's configuration: the tls block\<close>

lemma HasError_conversion: "HasError (Append ds [ErrorDiagnostic s d])"
  using HasError_Append [of ds "[ErrorDiagnostic s d]"]
  by (simp add: HasError_def del: Append.simps)

text \<open>
  Decoding leaves no \<open>tls\<close> struct behind: past the check of the decoding's
  diagnostics \<open>data.TLS\<close> is \<open>nil\<close>, and every configuration with a \<open>tls\<close> block ends
  at that check, before any item of the TLS material is resolved.
\<close>

lemma Config_Get_tls:
  "pm_TLS (fst (Config_Get config)) = None \<and>
   HasError (snd (Config_Get config)) = (\<not> IsNull (raw_tls config))"
  by (simp add: Config_Get_def Let_def HasError_def)

lemma Configure_tls_block_fails:
  "\<not> IsNull (raw_tls config) \<Longrightarrow>
   HeadscaleProvider_Configure os libs config resp0
     = resp0\<lparr>cr_Diagnostics := Append (cr_Diagnostics resp0) (snd (Config_Get config))\<rparr> \<and>
   HasError (cr_Diagnostics (HeadscaleProvider_Configure os libs config resp0))"
  by (simp add: HeadscaleProvider_Configure_def Config_Get_def Let_def HasError_conversion
      del: Append.simps)

text \<open>
  Claim C7, at an input where the code departs from it.  The configuration holds a
  \<open>tls\<close> block with the client certificate inline and no client key;
  \<open>HEADSCALE_TLS_CLIENT_KEY_PATH\<close> names a readable file.  The claim has the
  certificate taken from the block and the key read from the file.  \<open>Configure\<close>
  fails while decoding the block ("Value Conversion Error"), configures no client,
  and the result does not depend on the file.
\<close>

theorem Configure_rejects_tls_block:
  "Getenv sample_os ''HEADSCALE_TLS_CLIENT_KEY_PATH'' = ''/pki/key.pem'' \<and>
   ReadFile sample_os ''/pki/key.pem'' = Inr ''KEY PEM'' \<and>
   HasError (cr_Diagnostics (HeadscaleProvider_Configure sample_os sample_libs
      (sample_ProviderConfig\<lparr>raw_tls := Known [(''default'', sample_TLSModel)]\<rparr>) no_response)) \<and>
   cr_ResourceData (HeadscaleProvider_Configure sample_os sample_libs
      (sample_ProviderConfig\<lparr>raw_tls := Known [(''default'', sample_TLSModel)]\<rparr>) no_response)
     = None \<and>
   cr_DataSourceData (HeadscaleProvider_Configure sample_os sample_libs
      (sample_ProviderConfig\<lparr>raw_tls := Known [(''default'', sample_TLSModel)]\<rparr>) no_response)
     = None \<and>
   HeadscaleProvider_Configure
      (sample_os\<lparr>ReadFile := (\<lambda>path. Inl ''open: no such file or directory'')\<rparr>) sample_libs
      (sample_ProviderConfig\<lparr>raw_tls := Known [(''default'', sample_TLSModel)]\<rparr>) no_response
     = HeadscaleProvider_Configure sample_os sample_libs
      (sample_ProviderConfig\<lparr>raw_tls := Known [(''default'', sample_TLSModel)]\<rparr>) no_response"
  by (simp add: HeadscaleProvider_Configure_def Config_Get_def sample_os_def sample_libs_def
      sample_ProviderConfig_def sample_TLSModel_def no_response_def Let_def HasError_def)

text \<open>
  Without a \<open>tls\<close> block the variables are honoured: certificate and key are both
  read from the files the environment names.
\<close>

lemma Configure_reads_client_key_path_without_tls_block:
  "HeadscaleProvider_Configure
       (sample_os\<lparr>Getenv := (\<lambda>name.
            if name = ''HEADSCALE_TLS_CLIENT_KEY_PATH'' then ''/pki/key.pem''
            else if name = ''HEADSCALE_TLS_CLIENT_CERT_PATH'' then ''/pki/chain.pem'' else []),
          ReadFile := (\<lambda>path.
            if path = ''/pki/key.pem'' then Inr ''KEY PEM''
            else if path = ''/pki/chain.pem'' then Inr ''CERT PEM''
            else Inl ''open: no such file or directory'')\<rparr>)
       sample_libs sample_ProviderConfig no_response
     = \<lparr>cr_Diagnostics = [],
        cr_DataSourceData = Some \<lparr>cfg_target = ''headscale.my.domain:50443'',
          cfg_connOpts = [WithTransportCredentials
            \<lparr>InsecureSkipVerify = False, RootCAs = None,
             Certificates = [(''CERT PEM'', ''KEY PEM'')]\<rparr>]\<rparr>,
        cr_ResourceData = Some \<lparr>cfg_target = ''headscale.my.domain:50443'',
          cfg_connOpts = [WithTransportCredentials
            \<lparr>InsecureSkipVerify = False, RootCAs = None,
             Certificates = [(''CERT PEM'', ''KEY PEM'')]\<rparr>]\<rparr>\<rparr>"
  by (simp add: HeadscaleProvider_Configure_def Config_Get_def sample_os_def sample_libs_def
      sample_ProviderConfig_def no_response_def Let_def HasError_def
      cr_AddError_def AddError_def)

end
